theory Spec2Isabelle
  imports Main
begin

section \<open>Go runtime values: results, panics, integers, formatting\<close>

text \<open>
  A Go function of this program either returns or panics at run time. The three
  run-time panics the code can raise are a nil pointer dereference, an index out of
  range and slice bounds out of range.
\<close>

datatype panic = NilPointerDereference | IndexOutOfRange | SliceBoundsOutOfRange

datatype 'a outcome = Return 'a | Panic panic

text \<open>
  Go's \<^verbatim>\<open>int\<close> is a 64-bit two's complement integer on the platforms the client is built
  for. Values are kept as \<^typ>\<open>int\<close>; \<open>wrap64\<close> is the wrap-around of an arithmetic
  result, written wherever the source subtracts values that come from the user.
\<close>

definition in_int64 :: "int \<Rightarrow> bool" where
  "in_int64 i = (- (2 ^ 63) \<le> i \<and> i < 2 ^ 63)"

definition wrap64 :: "int \<Rightarrow> int" where
  "wrap64 i = (i + 2 ^ 63) mod 2 ^ 64 - 2 ^ 63"

text \<open>\<^verbatim>\<open>xs[i]\<close> on a slice: a run-time panic outside \<open>0 \<le> i < len(xs)\<close>.\<close>

definition index :: "'a list \<Rightarrow> int \<Rightarrow> 'a outcome" where
  "index xs i =
     (if 0 \<le> i \<and> i < int (length xs) then Return (xs ! nat i)
      else Panic IndexOutOfRange)"

text \<open>\<^verbatim>\<open>xs[low:]\<close> on a slice: the upper bound is \<open>len(xs)\<close>, and the run time
  panics unless \<open>0 \<le> low \<le> len(xs)\<close>.\<close>

definition slice_from :: "'a list \<Rightarrow> int \<Rightarrow> 'a list outcome" where
  "slice_from xs low =
     (if 0 \<le> low \<and> low \<le> int (length xs) then Return (drop (nat low) xs)
      else Panic SliceBoundsOutOfRange)"

text \<open>The verb \<^verbatim>\<open>%d\<close> of \<^verbatim>\<open>fmt.Sprintf\<close>: decimal digits, with a minus sign
  for a negative number.\<close>

fun digits :: "nat \<Rightarrow> string" where
  "digits n =
     (if n < 10 then [''0123456789'' ! n]
      else digits (n div 10) @ [''0123456789'' ! (n mod 10)])"

declare digits.simps [simp del]

definition fmt_d :: "int \<Rightarrow> string" where
  "fmt_d i = (if i < 0 then CHR ''-'' # digits (nat (- i)) else digits (nat i))"

section \<open>Errors\<close>

text \<open>
  A Go \<^verbatim>\<open>error\<close> value. \<open>ErrorsNew\<close> is \<^verbatim>\<open>errors.New\<close> with its message; the other
  constructors name where an error of a library or of a collaborator comes from:
  \<^verbatim>\<open>http.NewRequest\<close>, the credential store, \<^verbatim>\<open>http.Client.Do\<close>,
  \<^verbatim>\<open>ioutil.ReadAll\<close>, \<^verbatim>\<open>json.Unmarshal\<close> (syntax error or a value of the wrong JSON
  type), the reading of the user's number, and the choice of a project.
\<close>

datatype error =
    ErrorsNew string
  | RequestError string
  | AuthConfigError string
  | NetworkError string
  | ReadError string
  | JSONSyntaxError
  | JSONTypeError string
  | InputError string
  | ProjectError string

section \<open>Domain records\<close>

text \<open>A \<^verbatim>\<open>time.Time\<close> is kept as the instant's number of seconds.\<close>

type_synonym time = int

record Asset =
  Asset_ID :: int
  Asset_Name :: string
  Asset_ProjectId :: int
  Asset_ProjectName :: string
  Asset_Origin :: string
  Asset_CreatedAt :: time
  Asset_UpdatedAt :: time

record JobResults =
  ResultMessage :: string
  ResultStatus :: int
  ResultAssets :: "string list"
  ResultDetails :: "string list"

record Job =
  ID :: int
  Kind :: string
  Status :: string
  Results :: JobResults
  ProjectId :: int
  ProjectName :: string
  CreatedAt :: time
  UpdatedAt :: time

text \<open>The zero values \<^verbatim>\<open>JobResults{}\<close> and \<^verbatim>\<open>Job{}\<close>.\<close>

definition zero_JobResults :: JobResults where
  "zero_JobResults =
     \<lparr>ResultMessage = [], ResultStatus = 0, ResultAssets = [], ResultDetails = []\<rparr>"

definition zero_Job :: Job where
  "zero_Job =
     \<lparr>ID = 0, Kind = [], Status = [], Results = zero_JobResults, ProjectId = 0,
      ProjectName = [], CreatedAt = 0, UpdatedAt = 0\<rparr>"

text \<open>\<^verbatim>\<open>func (job *Job) EndPoint() string\<close>, on a receiver that is not nil.\<close>

definition Job_EndPoint :: "Job \<Rightarrow> string" where
  "Job_EndPoint job =
     ''/v1/projects/'' @ fmt_d (ProjectId job) @ ''/jobs/'' @ fmt_d (ID job)"

text \<open>The credentials of \<^verbatim>\<open>SlyftAuth\<close> that \<^verbatim>\<open>addAuthToHeader\<close> reads.\<close>

record SlyftAuth =
  AccessToken :: string
  Client :: string
  Uid :: string

text \<open>Of a \<^verbatim>\<open>Project\<close> the code under study reads the identifier only.\<close>

record Project =
  Project_ID :: int

section \<open>HTTP requests and responses\<close>

text \<open>
  The \<^verbatim>\<open>params\<close> argument of \<^verbatim>\<open>Do\<close> is an \<^verbatim>\<open>interface{}\<close>. The functions studied
  here pass nil (\<open>NoParams\<close>) and a \<^verbatim>\<open>*JobParam\<close>. The request keeps the value that
  \<^verbatim>\<open>json.NewEncoder(b).Encode\<close> wrote to its body; an error of the encoder is dropped
  by the source.
\<close>

record JobParam =
  JobParam_Job :: Job

datatype params = NoParams | JobParams JobParam

record request =
  Method :: string
  URL :: string
  Header :: "(string \<times> string) list"
  Payload :: params

text \<open>
  Of a response the program reads the status code and the body. \<open>Body\<close> is what
  \<^verbatim>\<open>ioutil.ReadAll(resp.Body)\<close> gives: the bytes, or a read error.
\<close>

record response =
  StatusCode :: int
  Body :: "error + string"

definition StatusOK :: int where
  "StatusOK = 200"

definition StatusCreated :: int where
  "StatusCreated = 201"

section \<open>JSON decoding\<close>

text \<open>
  The syntax of a JSON text. The program decodes with \<^verbatim>\<open>json.Unmarshal\<close> of the
  standard library, into a slice of records and into a pointer to a record.
\<close>

datatype json =
    JNull
  | JBool bool
  | JNumber int
  | JString string
  | JArray "json list"
  | JObject "(string \<times> json) list"

text \<open>All the decodings of a list, in order, or the first error.\<close>

fun decode_all :: "(json \<Rightarrow> error + 'a) \<Rightarrow> json list \<Rightarrow> error + 'a list" where
  "decode_all dec [] = Inr []"
| "decode_all dec (v # vs) =
     (case dec v of
        Inl err \<Rightarrow> Inl err
      | Inr x \<Rightarrow> (case decode_all dec vs of Inl err \<Rightarrow> Inl err | Inr xs \<Rightarrow> Inr (x # xs)))"

text \<open>
  \<^verbatim>\<open>json.Unmarshal(body, &xs)\<close> for a slice \<open>xs\<close>: a text that is not JSON is a syntax
  error; \<^verbatim>\<open>null\<close> sets the slice to nil; an array is decoded element by element, each
  appended in order; any other value is a type error. \<open>parse\<close> is the JSON grammar
  (bytes to syntax, \<open>None\<close> for a text that is not JSON) and \<open>dec\<close> the decoding of one
  value into the record type; both belong to the library and are parameters.
\<close>

definition unmarshal_slice ::
  "(string \<Rightarrow> json option) \<Rightarrow> (json \<Rightarrow> error + 'a) \<Rightarrow> string \<Rightarrow> error + 'a list" where
  "unmarshal_slice parse dec body =
     (case parse body of
        None \<Rightarrow> Inl JSONSyntaxError
      | Some JNull \<Rightarrow> Inr []
      | Some (JArray vs) \<Rightarrow> decode_all dec vs
      | Some _ \<Rightarrow> Inl (JSONTypeError ''slice''))"

text \<open>
  \<^verbatim>\<open>json.Unmarshal(body, &a)\<close> for a pointer \<open>a\<close> to a fresh record: \<^verbatim>\<open>null\<close> sets
  the pointer to nil (\<open>None\<close>); any other value is decoded into the record.
\<close>

definition unmarshal_ptr ::
  "(string \<Rightarrow> json option) \<Rightarrow> (json \<Rightarrow> error + 'a) \<Rightarrow> string \<Rightarrow> error + 'a option" where
  "unmarshal_ptr parse dec body =
     (case parse body of
        None \<Rightarrow> Inl JSONSyntaxError
      | Some JNull \<Rightarrow> Inr None
      | Some v \<Rightarrow> (case dec v of Inl err \<Rightarrow> Inl err | Inr x \<Rightarrow> Inr (Some x)))"

section \<open>The world outside the program, and what the program does to it\<close>

text \<open>
  What a run of the program does that can be seen from outside, in the order it happens:
  text written to the terminal, messages of the logger at the levels critical and error,
  errors handed to \<^verbatim>\<open>ReportError\<close>, the sleeps, the HTTP requests sent with what came
  back, the tables displayed and the numbers read from the user. Debug logging
  (\<^verbatim>\<open>Log.Debugf\<close>) is left out.
\<close>

datatype event =
    Printed string
  | LogCritical string
  | LogError string
  | Reported string error
  | Slept int
  | HttpSent request "error + response"
  | ShownJob Job
  | ShownJobs "Job list"
  | ShownAsset Asset
  | ShownAssets "Asset list"
  | AskedInt string "error + int"

record state =
  events :: "event list"
  sent :: nat

definition emit :: "event \<Rightarrow> state \<Rightarrow> state" where
  "emit e s = s\<lparr>events := events s @ [e]\<rparr>"

definition start :: state where
  "start = \<lparr>events = [], sent = 0\<rparr>"

text \<open>The events of a run that begins in \<open>s\<close> and ends in \<open>s'\<close>.\<close>

definition new_events :: "state \<Rightarrow> state \<Rightarrow> event list" where
  "new_events s s' = drop (length (events s)) (events s')"

text \<open>
  Everything the program reads from outside. \<open>BackendBaseUrl\<close> is the global of
  \<^verbatim>\<open>main.go\<close>. \<open>NewRequest_error\<close> is the check of \<^verbatim>\<open>http.NewRequest\<close> on the method and
  the URL. \<open>network\<close> is the server as \<^verbatim>\<open>http.Client.Do\<close> sees it: the answer to the
  request sent after \<open>n\<close> earlier ones. \<open>json_parse\<close>, \<open>job_of_json\<close> and
  \<open>asset_of_json\<close> are the JSON library (see \<open>unmarshal_slice\<close>). The functions
  \<^verbatim>\<open>readAuthFromConfig\<close>, \<^verbatim>\<open>GoodForLogin\<close>, \<^verbatim>\<open>ReadUserIntInput\<close>, \<^verbatim>\<open>chooseProject\<close> and
  \<^verbatim>\<open>JobsUrl\<close> are called by the code under study and defined in files of the repository
  that are not at hand; they are taken as they come.
\<close>

record world =
  BackendBaseUrl :: string
  NewRequest_error :: "string \<Rightarrow> string \<Rightarrow> error option"
  readAuthFromConfig :: "error + SlyftAuth"
  GoodForLogin :: "SlyftAuth \<Rightarrow> bool"
  network :: "nat \<Rightarrow> request \<Rightarrow> error + response"
  json_parse :: "string \<Rightarrow> json option"
  job_of_json :: "json \<Rightarrow> error + Job"
  asset_of_json :: "json \<Rightarrow> error + Asset"
  ReadUserIntInput :: "string \<Rightarrow> error + int"
  chooseProject :: "string \<Rightarrow> string \<Rightarrow> error + Project"
  JobsUrl :: "Project \<Rightarrow> string"

section \<open>Transport: \<^verbatim>\<open>Do\<close>\<close>

definition ServerURL :: "world \<Rightarrow> string \<Rightarrow> string" where
  "ServerURL w endpoint = BackendBaseUrl w @ endpoint"

definition Header_Add :: "string \<Rightarrow> string \<Rightarrow> request \<Rightarrow> request" where
  "Header_Add k v req = req\<lparr>Header := Header req @ [(k, v)]\<rparr>"

definition addAuthToHeader :: "SlyftAuth \<Rightarrow> request \<Rightarrow> request" where
  "addAuthToHeader a req =
     Header_Add ''uid'' (Uid a)
       (Header_Add ''client'' (Client a)
         (Header_Add ''access-token'' (AccessToken a) req))"

definition Error_string :: "error \<Rightarrow> string" where
  "Error_string err =
     (case err of
        ErrorsNew m \<Rightarrow> m | RequestError m \<Rightarrow> m | AuthConfigError m \<Rightarrow> m
      | NetworkError m \<Rightarrow> m | ReadError m \<Rightarrow> m | JSONSyntaxError \<Rightarrow> ''invalid JSON''
      | JSONTypeError m \<Rightarrow> m | InputError m \<Rightarrow> m | ProjectError m \<Rightarrow> m)"

definition login_hint :: string where
  "login_hint = ''You do not seem to be logged in. Please do a `slyft user login`''"

text \<open>\<^verbatim>\<open>client.Do(req)\<close>: the request goes out and the answer comes back.\<close>

definition client_Do :: "world \<Rightarrow> state \<Rightarrow> request \<Rightarrow> (error + response) \<times> state" where
  "client_Do w s req =
     (let r = network w (sent s) req
      in (r, (emit (HttpSent req r) s)\<lparr>sent := Suc (sent s)\<rparr>))"

text \<open>
  \<^verbatim>\<open>func Do(resource, method string, params interface{}) (*http.Response, error)\<close>.
  A request that cannot be built is logged and returned as an error. Credentials that
  cannot be read print the login hint and return the error: no request is sent.
  Credentials that were read and are not good for login print the same hint, and the
  request is sent with them.
\<close>

definition Do ::
  "world \<Rightarrow> state \<Rightarrow> string \<Rightarrow> string \<Rightarrow> params \<Rightarrow> (error + response) \<times> state" where
  "Do w s resource method ps =
     (case NewRequest_error w method (ServerURL w resource) of
        Some err \<Rightarrow>
          (Inl err, emit (LogCritical (''Failed to create a request: '' @ Error_string err)) s)
      | None \<Rightarrow>
          (let req = \<lparr>Method = method, URL = ServerURL w resource, Header = [], Payload = ps\<rparr>
           in case readAuthFromConfig w of
                Inl err \<Rightarrow> (Inl err, emit (Printed login_hint) s)
              | Inr auth \<Rightarrow>
                  (let s1 = (if \<not> GoodForLogin w auth then emit (Printed login_hint) s else s);
                       req1 = addAuthToHeader auth req;
                       req2 = Header_Add ''Content-Type'' ''application/json; charset=utf-8'' req1
                   in client_Do w s1 req2)))"

section \<open>Response decoder\<close>

definition respCodeToErrorMsg :: "response \<Rightarrow> int \<Rightarrow> string" where
  "respCodeToErrorMsg resp expectedCode =
     (if StatusCode resp = 401 then ''Unauthorized, please log in first.''
      else ''Unexpected return code from API, was='' @ fmt_d (StatusCode resp)
           @ '', expected='' @ fmt_d expectedCode)"

definition wrong_code_msg :: "response \<Rightarrow> int \<Rightarrow> string" where
  "wrong_code_msg resp expectedCode =
     ''Failed with the wrong code: '' @ fmt_d (StatusCode resp) @ ''. (expected ''
       @ fmt_d expectedCode @ [CHR '')'', CHR 0x0A]"

definition extractAssetsFromBody :: "world \<Rightarrow> string \<Rightarrow> (error + Asset list) outcome" where
  "extractAssetsFromBody w body =
     (case unmarshal_slice (json_parse w) (asset_of_json w) body of
        Inl err \<Rightarrow> Return (Inl err)
      | Inr assets \<Rightarrow> Return (Inr assets))"

text \<open>In \<^verbatim>\<open>[]Asset{*a}\<close> the pointer is dereferenced: nil after a body \<^verbatim>\<open>null\<close>.\<close>

definition extractAssetFromBody :: "world \<Rightarrow> string \<Rightarrow> (error + Asset list) outcome" where
  "extractAssetFromBody w body =
     (case unmarshal_ptr (json_parse w) (asset_of_json w) body of
        Inl err \<Rightarrow> Return (Inl err)
      | Inr None \<Rightarrow> Panic NilPointerDereference
      | Inr (Some a) \<Rightarrow> Return (Inr [a]))"

definition extractAssetFromResponse ::
  "world \<Rightarrow> response \<Rightarrow> int \<Rightarrow> bool \<Rightarrow> (error + Asset list) outcome" where
  "extractAssetFromResponse w resp expectedCode listExpected =
     (if StatusCode resp \<noteq> expectedCode
      then Return (Inl (ErrorsNew (respCodeToErrorMsg resp expectedCode)))
      else case Body resp of
             Inl err \<Rightarrow> Return (Inl err)
           | Inr body \<Rightarrow>
               if StatusCode resp \<noteq> expectedCode
               then Return (Inl (ErrorsNew (wrong_code_msg resp expectedCode)))
               else if listExpected then extractAssetsFromBody w body
               else extractAssetFromBody w body)"

definition extractJobsFromBody :: "world \<Rightarrow> string \<Rightarrow> (error + Job list) outcome" where
  "extractJobsFromBody w body =
     (case unmarshal_slice (json_parse w) (job_of_json w) body of
        Inl err \<Rightarrow> Return (Inl err)
      | Inr jobs \<Rightarrow> Return (Inr jobs))"

definition extractJobFromBody :: "world \<Rightarrow> string \<Rightarrow> (error + Job list) outcome" where
  "extractJobFromBody w body =
     (case unmarshal_ptr (json_parse w) (job_of_json w) body of
        Inl err \<Rightarrow> Return (Inl err)
      | Inr None \<Rightarrow> Panic NilPointerDereference
      | Inr (Some a) \<Rightarrow> Return (Inr [a]))"

definition extractJobFromResponse ::
  "world \<Rightarrow> response \<Rightarrow> int \<Rightarrow> bool \<Rightarrow> (error + Job list) outcome" where
  "extractJobFromResponse w resp expectedCode listExpected =
     (if StatusCode resp \<noteq> expectedCode
      then Return (Inl (ErrorsNew (respCodeToErrorMsg resp expectedCode)))
      else case Body resp of
             Inl err \<Rightarrow> Return (Inl err)
           | Inr body \<Rightarrow>
               if StatusCode resp \<noteq> expectedCode
               then Return (Inl (ErrorsNew (wrong_code_msg resp expectedCode)))
               else if listExpected then extractJobsFromBody w body
               else extractJobFromBody w body)"

section \<open>Interactive selection\<close>

definition DisplayAssets :: "Asset list \<Rightarrow> state \<Rightarrow> state" where
  "DisplayAssets assets s =
     (if length assets = 0 then emit (Printed ''No assets found'') s
      else if length assets = 1 then emit (ShownAsset (assets ! 0)) s
      else emit (ShownAssets assets) s)"

definition DisplayJobs :: "Job list \<Rightarrow> state \<Rightarrow> state" where
  "DisplayJobs jobs s =
     (if length jobs = 0 then emit (Printed ''No jobs found'') s
      else if length jobs = 1 then emit (ShownJob (jobs ! 0)) s
      else emit (ShownJobs jobs) s)"

text \<open>The call of \<^verbatim>\<open>ReadUserIntInput(message)\<close>, with its trace.\<close>

definition ask_int :: "world \<Rightarrow> state \<Rightarrow> string \<Rightarrow> (error + int) \<times> state" where
  "ask_int w s message =
     (let r = ReadUserIntInput w message in (r, emit (AskedInt message r) s))"

definition choose_msg :: string where
  "choose_msg = ''Plese choose a number from the first column''"

text \<open>
  \<^verbatim>\<open>chooseAsset\<close> after the list was fetched and decoded (lines 114 to 142 of
  \<^verbatim>\<open>assets.go\<close>). The result is the pair \<^verbatim>\<open>(*Asset, error)\<close>: \<open>Inl\<close> the error,
  \<open>Inr None\<close> for \<^verbatim>\<open>nil, nil\<close>. \<^verbatim>\<open>len(assets)-count\<close> and \<^verbatim>\<open>choice-1\<close> are 64-bit
  subtractions.
\<close>

definition chooseAsset_from ::
  "world \<Rightarrow> state \<Rightarrow> Asset list \<Rightarrow> bool \<Rightarrow> string \<Rightarrow> int
     \<Rightarrow> (error + Asset option) outcome \<times> state" where
  "chooseAsset_from w s assets askUser message count =
     (if length assets = 0 then (Return (Inl (ErrorsNew ''No asset. Sorry'')), s)
      else
        case (if count \<noteq> 0 then slice_from assets (wrap64 (int (length assets) - count))
              else Return assets) of
          Panic p \<Rightarrow> (Panic p, s)
        | Return assets1 \<Rightarrow>
            (let s1 = DisplayAssets assets1 s in
             if length assets1 = 1 then (Return (Inr (Some (assets1 ! 0))), s1)
             else if \<not> askUser then (Return (Inr None), s1)
             else
               case ask_int w s1 message of
                 (Inl err, s2) \<Rightarrow> (Return (Inl err), s2)
               | (Inr choice, s2) \<Rightarrow>
                   if choice > int (length assets1)
                   then (Return (Inl (ErrorsNew choose_msg)), s2)
                   else
                     (case index assets1 (wrap64 (choice - 1)) of
                        Panic p \<Rightarrow> (Panic p, s2)
                      | Return a \<Rightarrow> (Return (Inr (Some a)), s2))))"

definition chooseAsset ::
  "world \<Rightarrow> state \<Rightarrow> string \<Rightarrow> bool \<Rightarrow> string \<Rightarrow> int
     \<Rightarrow> (error + Asset option) outcome \<times> state" where
  "chooseAsset w s endpoint askUser message count =
     (case Do w s endpoint ''GET'' NoParams of
        (Inl err, s1) \<Rightarrow> (Return (Inl err), s1)
      | (Inr resp, s1) \<Rightarrow>
          (case extractAssetFromResponse w resp StatusOK True of
             Panic p \<Rightarrow> (Panic p, s1)
           | Return (Inl err) \<Rightarrow> (Return (Inl err), s1)
           | Return (Inr assets) \<Rightarrow> chooseAsset_from w s1 assets askUser message count))"

text \<open>\<^verbatim>\<open>chooseJob\<close> after the list was fetched and decoded (lines 182 to 205).\<close>

definition chooseJob_from ::
  "world \<Rightarrow> state \<Rightarrow> Job list \<Rightarrow> bool \<Rightarrow> string \<Rightarrow> (error + Job option) outcome \<times> state" where
  "chooseJob_from w s jobs askUser message =
     (if length jobs = 0 then (Return (Inl (ErrorsNew ''No job. Sorry'')), s)
      else
        (let s1 = DisplayJobs jobs s in
         if length jobs = 1 then (Return (Inr (Some (jobs ! 0))), s1)
         else if \<not> askUser then (Return (Inr None), s1)
         else
           case ask_int w s1 message of
             (Inl err, s2) \<Rightarrow> (Return (Inl err), s2)
           | (Inr choice, s2) \<Rightarrow>
               if choice > int (length jobs)
               then (Return (Inl (ErrorsNew choose_msg)), s2)
               else
                 (case index jobs (wrap64 (choice - 1)) of
                    Panic p \<Rightarrow> (Panic p, s2)
                  | Return a \<Rightarrow> (Return (Inr (Some a)), s2))))"

definition chooseJob ::
  "world \<Rightarrow> state \<Rightarrow> string \<Rightarrow> bool \<Rightarrow> string \<Rightarrow> (error + Job option) outcome \<times> state" where
  "chooseJob w s endpoint askUser message =
     (case Do w s endpoint ''GET'' NoParams of
        (Inl err, s1) \<Rightarrow> (Return (Inl err), s1)
      | (Inr resp, s1) \<Rightarrow>
          (case extractJobFromResponse w resp StatusOK True of
             Panic p \<Rightarrow> (Panic p, s1)
           | Return (Inl err) \<Rightarrow> (Return (Inl err), s1)
           | Return (Inr jobs) \<Rightarrow> chooseJob_from w s1 jobs askUser message))"

section \<open>Job lifecycle\<close>

definition creatJobParam :: "string \<Rightarrow> Project \<Rightarrow> JobParam" where
  "creatJobParam kind p = \<lparr>JobParam_Job = zero_Job\<lparr>Kind := kind, ProjectId := Project_ID p\<rparr>\<rparr>"

text \<open>\<^verbatim>\<open>func postNewJob(kind, name string) *Job\<close>: \<open>None\<close> is the nil pointer.\<close>

definition postNewJob :: "world \<Rightarrow> state \<Rightarrow> string \<Rightarrow> string \<Rightarrow> Job option outcome \<times> state" where
  "postNewJob w s kind name =
     (case chooseProject w name (kind @ '' project: '') of
        Inl err \<Rightarrow> (Return None, emit (Reported ''Choosing a project'' err) s)
      | Inr p \<Rightarrow>
          (case Do w s (JobsUrl w p) ''POST'' (JobParams (creatJobParam kind p)) of
             (Inl err, s1) \<Rightarrow> (Return None, emit (Reported ''Contacting the server'' err) s1)
           | (Inr resp, s1) \<Rightarrow>
               (case extractJobFromResponse w resp StatusCreated False of
                  Panic p \<Rightarrow> (Panic p, s1)
                | Return (Inl err) \<Rightarrow>
                    (Return None, emit (Reported ''Reading the server response'' err) s1)
                | Return (Inr jobs) \<Rightarrow>
                    if length jobs = 1 then (Return (Some (jobs ! 0)), emit (ShownJob (jobs ! 0)) s1)
                    else (Return None,
                          emit (LogError ''Error, creating a new job returned wrong job'') s1))))"

definition processed :: string where
  "processed = ''processed''"

definition waiting_msg :: "int \<Rightarrow> string" where
  "waiting_msg wait = ''Waiting ('' @ fmt_d wait @ ''s) for job completion..''"

definition timeout_msg :: "Job \<Rightarrow> string" where
  "timeout_msg job =
     ''Job '' @ fmt_d (ID job)
       @ '' did not complete in time. Please check manually using `slyft project status`''"

text \<open>
  The loop of \<^verbatim>\<open>waitForJobCompletion\<close> (lines 283 to 309) and what follows it. Each
  round takes 5 from the budget, sleeps 5 seconds, prints a dot, and sends the GET for
  the job's own endpoint; \<^verbatim>\<open>job.EndPoint()\<close> and \<^verbatim>\<open>job.ID\<close> read through the pointer
  \<open>job\<close>, a nil pointer dereference when it is nil. An error of \<^verbatim>\<open>Do\<close> returns false
  at once. \<open>wait\<close> is positive when 5 is taken from it, so the subtraction does not
  wrap.
\<close>

function wait_loop :: "world \<Rightarrow> Job option \<Rightarrow> int \<Rightarrow> state \<Rightarrow> bool outcome \<times> state" where
  "wait_loop w job wait s =
     (if wait > 0 then
        (let wait1 = wait - 5;
             s1 = emit (Slept 5) s;
             s2 = emit (Printed ''.'') s1
         in case job of
              None \<Rightarrow> (Panic NilPointerDereference, s2)
            | Some j \<Rightarrow>
                (case Do w s2 (Job_EndPoint j) ''GET'' NoParams of
                   (Inl err, s3) \<Rightarrow> (Return False, s3)
                 | (Inr resp, s3) \<Rightarrow>
                     (case extractJobFromResponse w resp StatusOK False of
                        Panic p \<Rightarrow> (Panic p, s3)
                      | Return (Inl err) \<Rightarrow> wait_loop w job wait1 s3
                      | Return (Inr jobs) \<Rightarrow>
                          if length jobs = 1 \<and> Status (jobs ! 0) = processed
                          then (Return True, emit (ShownJob (jobs ! 0)) s3)
                          else wait_loop w job wait1 s3)))
      else
        (case job of
           None \<Rightarrow> (Panic NilPointerDereference, s)
         | Some j \<Rightarrow> (Return False, emit (Printed (timeout_msg j)) s)))"
  by pat_completeness auto
termination
  by (relation "measure (\<lambda>(w, job, wait, s). nat wait)") auto

declare wait_loop.simps [simp del]

definition waitForJobCompletion ::
  "world \<Rightarrow> state \<Rightarrow> Job option \<Rightarrow> int \<Rightarrow> bool outcome \<times> state" where
  "waitForJobCompletion w s job wait = wait_loop w job wait (emit (Printed (waiting_msg wait)) s)"

text \<open>
  The action of \<^verbatim>\<open>buildProject\<close> and of \<^verbatim>\<open>validateProject\<close>, which differ in the kind
  only. \<open>name\<close> is the project name after \<^verbatim>\<open>strings.TrimSpace\<close>; \<open>wait\<close> is the pointer
  that \<^verbatim>\<open>cmd.IntOpt\<close> returned. The result of \<^verbatim>\<open>waitForJobCompletion\<close> is dropped.
\<close>

definition job_action ::
  "world \<Rightarrow> state \<Rightarrow> string \<Rightarrow> string \<Rightarrow> int option \<Rightarrow> unit outcome \<times> state" where
  "job_action w s kind name wait =
     (case postNewJob w s kind name of
        (Panic p, s1) \<Rightarrow> (Panic p, s1)
      | (Return job, s1) \<Rightarrow>
          (case wait of
             None \<Rightarrow> (Return (), s1)
           | Some n \<Rightarrow>
               (case waitForJobCompletion w s1 job n of
                  (Panic p, s2) \<Rightarrow> (Panic p, s2)
                | (Return b, s2) \<Rightarrow> (Return (), s2))))"

definition buildProject :: "world \<Rightarrow> state \<Rightarrow> string \<Rightarrow> int option \<Rightarrow> unit outcome \<times> state" where
  "buildProject w s name wait = job_action w s ''build'' name wait"

definition validateProject :: "world \<Rightarrow> state \<Rightarrow> string \<Rightarrow> int option \<Rightarrow> unit outcome \<times> state" where
  "validateProject w s name wait = job_action w s ''validate'' name wait"

section \<open>Rounds of the polling loop\<close>

text \<open>
  For stating what a run of the loop does, one round is classified by what its GET
  brings: \<open>Aborted\<close> when \<^verbatim>\<open>Do\<close> returns an error, \<open>Crashed\<close> when the decoding panics,
  \<open>Completed\<close> when one job with status \<^verbatim>\<open>processed\<close> is fetched, \<open>Missed\<close> otherwise (a
  decode error or another status). \<open>poll_once\<close> is the round from the sleep to the
  decoding, as in \<open>wait_loop\<close>; \<open>after_polls k\<close> is the state after \<open>k\<close> rounds and
  \<open>fetched k\<close> what the round after them brings.
\<close>

datatype poll = Aborted | Crashed panic | Completed Job | Missed

definition poll_once :: "world \<Rightarrow> Job \<Rightarrow> state \<Rightarrow> poll \<times> state" where
  "poll_once w j s =
     (case Do w (emit (Printed ''.'') (emit (Slept 5) s)) (Job_EndPoint j) ''GET'' NoParams of
        (Inl err, s3) \<Rightarrow> (Aborted, s3)
      | (Inr resp, s3) \<Rightarrow>
          (case extractJobFromResponse w resp StatusOK False of
             Panic p \<Rightarrow> (Crashed p, s3)
           | Return (Inl err) \<Rightarrow> (Missed, s3)
           | Return (Inr jobs) \<Rightarrow>
               if length jobs = 1 \<and> Status (jobs ! 0) = processed
               then (Completed (jobs ! 0), s3)
               else (Missed, s3)))"

definition after_polls :: "world \<Rightarrow> Job \<Rightarrow> nat \<Rightarrow> state \<Rightarrow> state" where
  "after_polls w j k s = ((\<lambda>t. snd (poll_once w j t)) ^^ k) s"

definition fetched :: "world \<Rightarrow> Job \<Rightarrow> nat \<Rightarrow> state \<Rightarrow> poll" where
  "fetched w j k s = fst (poll_once w j (after_polls w j k s))"

text \<open>The seconds slept so far, and the test that an event is a GET that fetched one job
  with status \<^verbatim>\<open>processed\<close>.\<close>

definition slept :: "state \<Rightarrow> int" where
  "slept s = sum_list (map (\<lambda>e. case e of Slept n \<Rightarrow> n | _ \<Rightarrow> 0) (events s))"

definition fetched_processed :: "world \<Rightarrow> response \<Rightarrow> bool" where
  "fetched_processed w resp =
     (case extractJobFromResponse w resp StatusOK False of
        Return (Inr jobs) \<Rightarrow> length jobs = 1 \<and> Status (jobs ! 0) = processed
      | _ \<Rightarrow> False)"

definition completes :: "world \<Rightarrow> event \<Rightarrow> bool" where
  "completes w e =
     (case e of HttpSent req (Inr resp) \<Rightarrow> fetched_processed w resp | _ \<Rightarrow> False)"

section \<open>A concrete world\<close>

text \<open>
  An instance of the world, on which the definitions are run: a JSON grammar on the few
  texts the runs below receive, a decoding of records that reads the fields
  \<^verbatim>\<open>id\<close>, \<^verbatim>\<open>name\<close> and \<^verbatim>\<open>status\<close> (an absent field or \<^verbatim>\<open>null\<close> leaves the zero
  value, a value of another type is an error), credentials that are good for login, and
  a server and a user given as parameters.
\<close>

definition zero_Asset :: Asset where
  "zero_Asset =
     \<lparr>Asset_ID = 0, Asset_Name = [], Asset_ProjectId = 0, Asset_ProjectName = [],
      Asset_Origin = [], Asset_CreatedAt = 0, Asset_UpdatedAt = 0\<rparr>"

definition int_field :: "(string \<times> json) list \<Rightarrow> string \<Rightarrow> error + int" where
  "int_field fs k =
     (case map_of fs k of
        None \<Rightarrow> Inr 0 | Some JNull \<Rightarrow> Inr 0 | Some (JNumber n) \<Rightarrow> Inr n
      | Some _ \<Rightarrow> Inl (JSONTypeError k))"

definition string_field :: "(string \<times> json) list \<Rightarrow> string \<Rightarrow> error + string" where
  "string_field fs k =
     (case map_of fs k of
        None \<Rightarrow> Inr [] | Some JNull \<Rightarrow> Inr [] | Some (JString x) \<Rightarrow> Inr x
      | Some _ \<Rightarrow> Inl (JSONTypeError k))"

definition example_asset_of_json :: "json \<Rightarrow> error + Asset" where
  "example_asset_of_json v =
     (case v of
        JNull \<Rightarrow> Inr zero_Asset
      | JObject fs \<Rightarrow>
          (case int_field fs ''id'' of
             Inl err \<Rightarrow> Inl err
           | Inr i \<Rightarrow>
               (case string_field fs ''name'' of
                  Inl err \<Rightarrow> Inl err
                | Inr n \<Rightarrow> Inr (zero_Asset\<lparr>Asset_ID := i, Asset_Name := n\<rparr>)))
      | _ \<Rightarrow> Inl (JSONTypeError ''Asset''))"

definition example_job_of_json :: "json \<Rightarrow> error + Job" where
  "example_job_of_json v =
     (case v of
        JNull \<Rightarrow> Inr zero_Job
      | JObject fs \<Rightarrow>
          (case int_field fs ''id'' of
             Inl err \<Rightarrow> Inl err
           | Inr i \<Rightarrow>
               (case string_field fs ''status'' of
                  Inl err \<Rightarrow> Inl err
                | Inr st \<Rightarrow> Inr (zero_Job\<lparr>ID := i, Status := st\<rparr>)))
      | _ \<Rightarrow> Inl (JSONTypeError ''Job''))"

definition example_parse :: "string \<Rightarrow> json option" where
  \<open>example_parse =
     map_of
       [(''null'', JNull),
        (''[]'', JArray []),
        (''{"id":1}'', JObject [(''id'', JNumber 1)]),
        (''[{"id":1}]'', JArray [JObject [(''id'', JNumber 1)]]),
        (''[{"id":1},{"id":2}]'',
           JArray [JObject [(''id'', JNumber 1)], JObject [(''id'', JNumber 2)]]),
        (''{"id":7,"status":"queued"}'',
           JObject [(''id'', JNumber 7), (''status'', JString ''queued'')]),
        (''{"id":7,"status":"processed"}'',
           JObject [(''id'', JNumber 7), (''status'', JString ''processed'')])]\<close>

definition example_auth :: SlyftAuth where
  "example_auth = \<lparr>AccessToken = ''token'', Client = ''client'', Uid = ''me@example.org''\<rparr>"

definition example_world ::
  "(error + SlyftAuth) \<Rightarrow> (nat \<Rightarrow> request \<Rightarrow> error + response) \<Rightarrow> (error + int) \<Rightarrow> world" where
  "example_world auth net input =
     \<lparr>BackendBaseUrl = ''https://api.example.org'',
      NewRequest_error = (\<lambda>m u. None),
      readAuthFromConfig = auth,
      GoodForLogin = (\<lambda>a. AccessToken a \<noteq> [] \<and> Client a \<noteq> [] \<and> Uid a \<noteq> []),
      network = net,
      json_parse = example_parse,
      job_of_json = example_job_of_json,
      asset_of_json = example_asset_of_json,
      ReadUserIntInput = (\<lambda>m. input),
      chooseProject = (\<lambda>name m. if name = [] then Inl (ProjectError ''no project'')
                                  else Inr \<lparr>Project_ID = 3\<rparr>),
      JobsUrl = (\<lambda>p. ''/v1/projects/'' @ fmt_d (Project_ID p) @ ''/jobs'')\<rparr>"

definition ok_response :: "string \<Rightarrow> response" where
  "ok_response body = \<lparr>StatusCode = 200, Body = Inr body\<rparr>"

text \<open>A server that is not reached, and one that answers every request alike.\<close>

definition offline :: "nat \<Rightarrow> request \<Rightarrow> error + response" where
  "offline n req = Inl (NetworkError ''connection refused'')"

definition always :: "response \<Rightarrow> nat \<Rightarrow> request \<Rightarrow> error + response" where
  "always resp n req = Inr resp"

text \<open>A server that answers every request with status 200 and the given body, and a user
  who types the given number.\<close>

definition assets_world :: "string \<Rightarrow> (error + int) \<Rightarrow> world" where
  "assets_world body input = example_world (Inr example_auth) (always (ok_response body)) input"

definition delete_msg :: string where
  "delete_msg = ''Which one shall be deleted: ''"

text \<open>A job to wait for, the bodies the server sends for it, and servers that answer the
  first \<open>k\<close> requests with status \<^verbatim>\<open>queued\<close>, that fail at the first request, and that
  answer the first request with status 500.\<close>

definition job7 :: Job where
  "job7 = zero_Job\<lparr>ID := 7, ProjectId := 3\<rparr>"

definition done7 :: Job where
  "done7 = zero_Job\<lparr>ID := 7, Status := ''processed''\<rparr>"

definition queued_text :: string where
  \<open>queued_text = ''{"id":7,"status":"queued"}''\<close>

definition processed_text :: string where
  \<open>processed_text = ''{"id":7,"status":"processed"}''\<close>

definition processed_from :: "nat \<Rightarrow> nat \<Rightarrow> request \<Rightarrow> error + response" where
  "processed_from k n req =
     (if n < k then Inr (ok_response queued_text) else Inr (ok_response processed_text))"

definition fails_first :: "nat \<Rightarrow> request \<Rightarrow> error + response" where
  "fails_first n req =
     (if n = 0 then Inl (NetworkError ''connection reset'')
      else Inr (ok_response processed_text))"

definition error_first :: "nat \<Rightarrow> request \<Rightarrow> error + response" where
  "error_first n req =
     (if n = 0 then Inr \<lparr>StatusCode = 500, Body = Inr ''Internal Server Error''\<rparr>
      else Inr (ok_response processed_text))"

definition poll_world :: "(nat \<Rightarrow> request \<Rightarrow> error + response) \<Rightarrow> world" where
  "poll_world net = example_world (Inr example_auth) net (Inr 0)"

definition poll_request :: "Job \<Rightarrow> request" where
  "poll_request j =
     \<lparr>Method = ''GET'', URL = ''https://api.example.org'' @ Job_EndPoint j,
      Header = [(''access-token'', ''token''), (''client'', ''client''),
                (''uid'', ''me@example.org''),
                (''Content-Type'', ''application/json; charset=utf-8'')],
      Payload = NoParams\<rparr>"

definition no_token :: SlyftAuth where
  "no_token = \<lparr>AccessToken = [], Client = [], Uid = []\<rparr>"

section \<open>Basic facts\<close>

lemma wrap64_id: "in_int64 i \<Longrightarrow> wrap64 i = i"
  unfolding in_int64_def wrap64_def by (simp add: mod_pos_pos_trivial)

lemma decode_all_list_all2:
  "list_all2 (\<lambda>v r. dec v = Inr r) vs rs \<Longrightarrow> decode_all dec vs = Inr rs"
  by (induction vs rs rule: list_all2_induct) auto

section \<open>Response decoder: status mismatch\<close>

text \<open>
  Claim C6. When the status of the response differs from the expected status, the
  decoder (for assets and for jobs alike) returns the error whose message is
  \<^verbatim>\<open>Unauthorized, please log in first.\<close> when the status is 401, and otherwise the message
  \<^verbatim>\<open>Unexpected return code from API, was=<got>, expected=<expected>\<close> with both codes in
  decimal; the first message is returned exactly when the status is 401. The result
  is the same for every body and every JSON library: the body is neither read nor
  parsed on this path.
\<close>

theorem status_mismatch_error:
  assumes "StatusCode resp \<noteq> expectedCode"
  shows "extractAssetFromResponse w resp expectedCode listExpected =
           Return (Inl (ErrorsNew
             (if StatusCode resp = 401 then ''Unauthorized, please log in first.''
              else ''Unexpected return code from API, was='' @ fmt_d (StatusCode resp)
                   @ '', expected='' @ fmt_d expectedCode)))
       \<and> extractJobFromResponse w resp expectedCode listExpected =
           Return (Inl (ErrorsNew
             (if StatusCode resp = 401 then ''Unauthorized, please log in first.''
              else ''Unexpected return code from API, was='' @ fmt_d (StatusCode resp)
                   @ '', expected='' @ fmt_d expectedCode)))
       \<and> ((extractAssetFromResponse w resp expectedCode listExpected =
             Return (Inl (ErrorsNew ''Unauthorized, please log in first.'')))
            = (StatusCode resp = 401))
       \<and> ((extractJobFromResponse w resp expectedCode listExpected =
             Return (Inl (ErrorsNew ''Unauthorized, please log in first.'')))
            = (StatusCode resp = 401))
       \<and> extractAssetFromResponse w' (resp\<lparr>Body := b\<rparr>) expectedCode listExpected =
           extractAssetFromResponse w resp expectedCode listExpected
       \<and> extractJobFromResponse w' (resp\<lparr>Body := b\<rparr>) expectedCode listExpected =
           extractJobFromResponse w resp expectedCode listExpected"
  using assms
  by (simp add: extractAssetFromResponse_def extractJobFromResponse_def respCodeToErrorMsg_def)

theorem status_mismatch_error_witness:
  \<open>extractAssetFromResponse (example_world (Inr example_auth) offline (Inr 0))
       \<lparr>StatusCode = 404, Body = Inr ''[{"id":1}]''\<rparr> 200 True
     = Return (Inl (ErrorsNew ''Unexpected return code from API, was=404, expected=200''))
   \<and> extractJobFromResponse (example_world (Inr example_auth) offline (Inr 0))
       \<lparr>StatusCode = 401, Body = Inr ''{"id":7,"status":"processed"}''\<rparr> 200 False
     = Return (Inl (ErrorsNew ''Unauthorized, please log in first.''))\<close>
proof -
  have a: \<open>StatusCode \<lparr>StatusCode = 404, Body = Inr ''[{"id":1}]''\<rparr> \<noteq> 200\<close>
    by simp
  have b: \<open>StatusCode \<lparr>StatusCode = 401, Body = Inr ''{"id":7,"status":"processed"}''\<rparr> \<noteq> 200\<close>
    by simp
  show ?thesis
    using status_mismatch_error [OF a] status_mismatch_error [OF b]
    by (simp add: fmt_d_def digits.simps)
qed

section \<open>Response decoder: expected status\<close>

text \<open>
  Claim C7. When the status of the response equals the expected status and the body
  is read: with the collection flag set, a body that is a JSON array whose elements
  each decode to a record yields exactly those records, as many as the array has
  elements and in the array's order; with the flag unset, a body that is one JSON
  object that decodes to a record yields the one-element collection of that record.
\<close>

theorem decode_expected_status:
  assumes "StatusCode resp = expectedCode" and "Body resp = Inr body"
  shows "(json_parse w body = Some (JArray vs)
            \<and> list_all2 (\<lambda>v r. asset_of_json w v = Inr r) vs rs
          \<longrightarrow> extractAssetFromResponse w resp expectedCode True = Return (Inr rs)
              \<and> length rs = length vs)
       \<and> (json_parse w body = Some (JObject fs) \<and> asset_of_json w (JObject fs) = Inr r
          \<longrightarrow> extractAssetFromResponse w resp expectedCode False = Return (Inr [r]))"
  using assms
  by (auto simp: extractAssetFromResponse_def extractAssetsFromBody_def
      extractAssetFromBody_def unmarshal_slice_def unmarshal_ptr_def
      decode_all_list_all2 list_all2_lengthD)

theorem decode_expected_status_witness:
  \<open>extractAssetFromResponse (example_world (Inr example_auth) offline (Inr 0))
      (ok_response ''[{"id":1},{"id":2}]'') 200 True
     = Return (Inr [zero_Asset\<lparr>Asset_ID := 1\<rparr>, zero_Asset\<lparr>Asset_ID := 2\<rparr>])
   \<and> extractAssetFromResponse (example_world (Inr example_auth) offline (Inr 0))
      (ok_response ''{"id":1}'') 200 False
     = Return (Inr [zero_Asset\<lparr>Asset_ID := 1\<rparr>])\<close>
  using
    decode_expected_status [of \<open>ok_response ''[{"id":1},{"id":2}]''\<close> 200
      \<open>''[{"id":1},{"id":2}]''\<close> "example_world (Inr example_auth) offline (Inr 0)"
      "[JObject [(''id'', JNumber 1)], JObject [(''id'', JNumber 2)]]"
      "[zero_Asset\<lparr>Asset_ID := 1\<rparr>, zero_Asset\<lparr>Asset_ID := 2\<rparr>]" "[]" zero_Asset]
    decode_expected_status [of \<open>ok_response ''{"id":1}''\<close> 200 \<open>''{"id":1}''\<close>
      "example_world (Inr example_auth) offline (Inr 0)" "[]" "[]"
      "[(''id'', JNumber 1)]" "zero_Asset\<lparr>Asset_ID := 1\<rparr>"]
  by (simp add: ok_response_def example_world_def example_parse_def
      example_asset_of_json_def int_field_def string_field_def zero_Asset_def)

section \<open>Runs in the concrete world\<close>

lemma new_events_emit: "new_events s (emit e s) = [e]"
  by (simp add: new_events_def emit_def)

lemma Do_example_ok:
  "fst (Do (assets_world body input) start endpoint ''GET'' NoParams) = Inr (ok_response body)"
  by (simp add: Do_def assets_world_def example_world_def always_def client_Do_def Let_def
      example_auth_def)

lemma Do_example_state:
  "Do (assets_world body input) start endpoint ''GET'' NoParams =
     (Inr (ok_response body), snd (Do (assets_world body input) start endpoint ''GET'' NoParams))"
  using Do_example_ok [of body input endpoint] by (simp add: prod_eq_iff)

lemma ReadUserIntInput_example: "ReadUserIntInput (assets_world body input) m = input"
  by (simp add: assets_world_def example_world_def)

lemma extract_two_assets:
  \<open>extractAssetFromResponse (assets_world body input) (ok_response ''[{"id":1},{"id":2}]'') StatusOK True
     = Return (Inr [zero_Asset\<lparr>Asset_ID := 1\<rparr>, zero_Asset\<lparr>Asset_ID := 2\<rparr>])\<close>
  by (simp add: extractAssetFromResponse_def extractAssetsFromBody_def unmarshal_slice_def
      assets_world_def example_world_def example_parse_def ok_response_def StatusOK_def
      example_asset_of_json_def int_field_def string_field_def zero_Asset_def)

lemma extract_one_asset:
  \<open>extractAssetFromResponse (assets_world body input) (ok_response ''[{"id":1}]'') StatusOK True
     = Return (Inr [zero_Asset\<lparr>Asset_ID := 1\<rparr>])\<close>
  by (simp add: extractAssetFromResponse_def extractAssetsFromBody_def unmarshal_slice_def
      assets_world_def example_world_def example_parse_def ok_response_def StatusOK_def
      example_asset_of_json_def int_field_def string_field_def zero_Asset_def)

lemma extract_no_asset:
  \<open>extractAssetFromResponse (assets_world body input) (ok_response ''[]'') StatusOK True
     = Return (Inr [])\<close>
  by (simp add: extractAssetFromResponse_def extractAssetsFromBody_def unmarshal_slice_def
      assets_world_def example_world_def example_parse_def ok_response_def StatusOK_def)

lemma extract_two_jobs:
  \<open>extractJobFromResponse (assets_world body input) (ok_response ''[{"id":1},{"id":2}]'') StatusOK True
     = Return (Inr [zero_Job\<lparr>ID := 1\<rparr>, zero_Job\<lparr>ID := 2\<rparr>])\<close>
  by (simp add: extractJobFromResponse_def extractJobsFromBody_def unmarshal_slice_def
      assets_world_def example_world_def example_parse_def ok_response_def StatusOK_def
      example_job_of_json_def int_field_def string_field_def zero_Job_def)

lemma extract_one_job:
  \<open>extractJobFromResponse (assets_world body input) (ok_response ''[{"id":1}]'') StatusOK True
     = Return (Inr [zero_Job\<lparr>ID := 1\<rparr>])\<close>
  by (simp add: extractJobFromResponse_def extractJobsFromBody_def unmarshal_slice_def
      assets_world_def example_world_def example_parse_def ok_response_def StatusOK_def
      example_job_of_json_def int_field_def string_field_def zero_Job_def)

lemma extract_no_job:
  \<open>extractJobFromResponse (assets_world body input) (ok_response ''[]'') StatusOK True
     = Return (Inr [])\<close>
  by (simp add: extractJobFromResponse_def extractJobsFromBody_def unmarshal_slice_def
      assets_world_def example_world_def example_parse_def ok_response_def StatusOK_def)

section \<open>Tail count of the asset selection\<close>

lemma wrap64_high: "2 ^ 63 \<le> i \<Longrightarrow> i < 2 ^ 64 \<Longrightarrow> wrap64 i = i - 2 ^ 64"
proof -
  assume a: "2 ^ 63 \<le> i" "i < 2 ^ 64"
  have "(i + 2 ^ 63) mod 2 ^ 64 = (i + 2 ^ 63 - 2 ^ 64) mod 2 ^ 64"
    by (metis minus_mod_self2)
  also have "\<dots> = i + 2 ^ 63 - 2 ^ 64"
    using a by (intro mod_pos_pos_trivial) auto
  finally show ?thesis unfolding wrap64_def by simp
qed

lemma slice_from_tail_panics:
  assumes "xs \<noteq> []" "int (length xs) < 2 ^ 63" "in_int64 count"
  shows "(slice_from xs (wrap64 (int (length xs) - count)) = Panic SliceBoundsOutOfRange)
         = (count < 0 \<or> int (length xs) < count)"
proof (cases "count < 0")
  case True
  show ?thesis
  proof (cases "int (length xs) - count < 2 ^ 63")
    case True
    then have "in_int64 (int (length xs) - count)"
      using \<open>count < 0\<close> by (simp add: in_int64_def)
    then show ?thesis using \<open>count < 0\<close> by (simp add: wrap64_id slice_from_def)
  next
    case False
    then have "wrap64 (int (length xs) - count) = int (length xs) - count - 2 ^ 64"
      using assms by (intro wrap64_high) (auto simp: in_int64_def)
    then show ?thesis using \<open>count < 0\<close> assms by (simp add: slice_from_def in_int64_def)
  qed
next
  case False
  then have "in_int64 (int (length xs) - count)"
    using assms by (simp add: in_int64_def)
  then show ?thesis using False by (auto simp add: wrap64_id slice_from_def)
qed

lemma slice_from_tail_ok:
  assumes "0 \<le> count" "count \<le> int (length xs)" "int (length xs) < 2 ^ 63"
  shows "slice_from xs (wrap64 (int (length xs) - count)) = Return (drop (length xs - nat count) xs)"
proof -
  have "in_int64 (int (length xs) - count)" using assms by (simp add: in_int64_def)
  then show ?thesis using assms by (simp add: wrap64_id slice_from_def nat_diff_distrib')
qed

lemma slice_from_cases:
  "slice_from xs i = Panic SliceBoundsOutOfRange \<or> (\<exists>ys. slice_from xs i = Return ys)"
  by (simp add: slice_from_def)

lemma chooseAsset_from_narrowed:
  assumes "assets \<noteq> []"
    and "(if count \<noteq> 0 then slice_from assets (wrap64 (int (length assets) - count))
          else Return assets) = Return ys"
  shows "fst (chooseAsset_from w s assets askUser message count) \<noteq> Panic SliceBoundsOutOfRange"
  unfolding chooseAsset_from_def assms(2) using assms(1)
  by (simp add: Let_def ask_int_def index_def split: sum.split)

text \<open>
  Claim C9. After a non-empty list of assets was fetched, the narrowing
  \<^verbatim>\<open>assets[len(assets)-count:]\<close> panics with slice bounds out of range when the count is
  not zero and is negative or greater than the length of the list: \<^verbatim>\<open>chooseAsset\<close>
  panics and returns no error. For a count from 0 to the length the narrowing does not
  panic. The count is any 64-bit integer and the subtraction wraps around.
\<close>

theorem tail_count_out_of_range_panics:
  assumes "Do w s endpoint ''GET'' NoParams = (Inr resp, s1)"
    and "extractAssetFromResponse w resp StatusOK True = Return (Inr assets)"
    and "assets \<noteq> []" and "int (length assets) < 2 ^ 63" and "in_int64 count"
  shows "(count \<noteq> 0 \<and> (count < 0 \<or> int (length assets) < count)
            \<longrightarrow> chooseAsset w s endpoint askUser message count = (Panic SliceBoundsOutOfRange, s1))
       \<and> ((fst (chooseAsset w s endpoint askUser message count) = Panic SliceBoundsOutOfRange)
            = (count \<noteq> 0 \<and> (count < 0 \<or> int (length assets) < count)))"
proof -
  have run: "chooseAsset w s endpoint askUser message count =
               chooseAsset_from w s1 assets askUser message count"
    using assms(1,2) by (simp add: chooseAsset_def)
  have tail: "(slice_from assets (wrap64 (int (length assets) - count)) = Panic SliceBoundsOutOfRange)
         = (count < 0 \<or> int (length assets) < count)"
    using assms(3-5) by (rule slice_from_tail_panics)
  show ?thesis
  proof (cases "count \<noteq> 0 \<and> (count < 0 \<or> int (length assets) < count)")
    case True
    then show ?thesis using run tail assms(3) by (simp add: chooseAsset_from_def)
  next
    case False
    then have "\<exists>ys. (if count \<noteq> 0 then slice_from assets (wrap64 (int (length assets) - count))
          else Return assets) = Return ys"
      using tail slice_from_cases [of assets "wrap64 (int (length assets) - count)"] by auto
    then obtain ys where "(if count \<noteq> 0 then slice_from assets (wrap64 (int (length assets) - count))
          else Return assets) = Return ys" ..
    from chooseAsset_from_narrowed [OF assms(3) this]
    show ?thesis using run False by auto
  qed
qed

theorem tail_count_out_of_range_panics_witness:
  \<open>fst (chooseAsset (assets_world ''[{"id":1},{"id":2}]'' (Inr 1)) start ''/v1/assets'' True delete_msg 3)
     = Panic SliceBoundsOutOfRange
   \<and> fst (chooseAsset (assets_world ''[{"id":1},{"id":2}]'' (Inr 1)) start ''/v1/assets'' True delete_msg (- 1))
     = Panic SliceBoundsOutOfRange
   \<and> fst (chooseAsset (assets_world ''[{"id":1},{"id":2}]'' (Inr 1)) start ''/v1/assets'' True delete_msg 2)
     \<noteq> Panic SliceBoundsOutOfRange\<close>
  using
    tail_count_out_of_range_panics [OF Do_example_state extract_two_assets, where count = 3 and askUser = True and message = delete_msg]
    tail_count_out_of_range_panics [OF Do_example_state extract_two_assets, where count = "- 1" and askUser = True and message = delete_msg]
    tail_count_out_of_range_panics [OF Do_example_state extract_two_assets, where count = 2 and askUser = True and message = delete_msg]
  by (simp add: in_int64_def)

section \<open>Selection on an empty and on a singleton list\<close>

text \<open>
  What selection does on an empty and on a singleton list. When the fetched list is
  empty, \<^verbatim>\<open>chooseAsset\<close> and \<^verbatim>\<open>chooseJob\<close> return the error \<^verbatim>\<open>No asset. Sorry\<close>
  (\<^verbatim>\<open>No job. Sorry\<close>), whatever the prompting flag and the tail count. When the fetched
  list has one element, \<^verbatim>\<open>chooseJob\<close> returns that element, and \<^verbatim>\<open>chooseAsset\<close> returns
  it when the tail count is 0 or 1; the element is displayed and the user is not asked
  for a number, also when prompting is enabled. The same holds when the tail count 1
  narrows a longer list to its last element.
\<close>

lemma select_empty_or_singleton:
  assumes "Do w s endpoint ''GET'' NoParams = (Inr resp, s1)"
  shows "(extractAssetFromResponse w resp StatusOK True = Return (Inr [])
          \<longrightarrow> chooseAsset w s endpoint askUser message count
                = (Return (Inl (ErrorsNew ''No asset. Sorry'')), s1))
       \<and> (extractJobFromResponse w resp StatusOK True = Return (Inr [])
          \<longrightarrow> chooseJob w s endpoint askUser message
                = (Return (Inl (ErrorsNew ''No job. Sorry'')), s1))
       \<and> (extractAssetFromResponse w resp StatusOK True = Return (Inr [a])
            \<and> (count = 0 \<or> count = 1)
          \<longrightarrow> chooseAsset w s endpoint askUser message count
                = (Return (Inr (Some a)), emit (ShownAsset a) s1)
              \<and> new_events s1 (snd (chooseAsset w s endpoint askUser message count))
                = [ShownAsset a])
       \<and> (extractJobFromResponse w resp StatusOK True = Return (Inr [j])
          \<longrightarrow> chooseJob w s endpoint askUser message
                = (Return (Inr (Some j)), emit (ShownJob j) s1)
              \<and> new_events s1 (snd (chooseJob w s endpoint askUser message)) = [ShownJob j])"
proof -
  have w0: "wrap64 0 = 0" by (simp add: wrap64_def)
  show ?thesis
    using assms
    by (auto simp: chooseAsset_def chooseJob_def chooseAsset_from_def chooseJob_from_def
        DisplayAssets_def DisplayJobs_def slice_from_def w0 new_events_emit)
qed

lemma select_empty_or_singleton_example:
  \<open>fst (chooseAsset (assets_world ''[]'' (Inr 1)) start ''/v1/assets'' True delete_msg 1)
     = Return (Inl (ErrorsNew ''No asset. Sorry''))
   \<and> fst (chooseJob (assets_world ''[]'' (Inr 1)) start ''/v1/jobs'' False [])
     = Return (Inl (ErrorsNew ''No job. Sorry''))
   \<and> fst (chooseAsset (assets_world ''[{"id":1}]'' (Inr 1)) start ''/v1/assets'' True delete_msg 1)
     = Return (Inr (Some (zero_Asset\<lparr>Asset_ID := 1\<rparr>)))
   \<and> fst (chooseJob (assets_world ''[{"id":1}]'' (Inr 1)) start ''/v1/jobs'' True delete_msg)
     = Return (Inr (Some (zero_Job\<lparr>ID := 1\<rparr>)))\<close>
  using
    select_empty_or_singleton [OF Do_example_state [of \<open>''[]''\<close> "Inr 1" "''/v1/assets''"],
      where askUser = True and message = delete_msg and count = 1]
    select_empty_or_singleton [OF Do_example_state [of \<open>''[]''\<close> "Inr 1" "''/v1/jobs''"],
      where askUser = False and message = "[]"]
    select_empty_or_singleton [OF Do_example_state [of \<open>''[{"id":1}]''\<close> "Inr 1" "''/v1/assets''"],
      where askUser = True and message = delete_msg and count = 1
        and a = "zero_Asset\<lparr>Asset_ID := 1\<rparr>"]
    select_empty_or_singleton [OF Do_example_state [of \<open>''[{"id":1}]''\<close> "Inr 1" "''/v1/jobs''"],
      where askUser = True and message = delete_msg and j = "zero_Job\<lparr>ID := 1\<rparr>"]
  by (simp add: extract_no_asset extract_no_job extract_one_asset extract_one_job)

lemma drop_to_last: "xs \<noteq> [] \<Longrightarrow> drop (length xs - Suc 0) xs = [last xs]"
  by (cases xs rule: rev_cases) simp_all

lemma chooseAsset_last_one:
  assumes "Do w s endpoint ''GET'' NoParams = (Inr resp, s1)"
    and "extractAssetFromResponse w resp StatusOK True = Return (Inr assets)"
    and "assets \<noteq> []" and "int (length assets) < 2 ^ 63"
  shows "chooseAsset w s endpoint askUser message 1
           = (Return (Inr (Some (last assets))), emit (ShownAsset (last assets)) s1)"
proof -
  have "1 \<le> int (length assets)" using assms(3) by (cases assets) simp_all
  then have "slice_from assets (wrap64 (int (length assets) - 1))
               = Return (drop (length assets - nat 1) assets)"
    using assms(4) by (intro slice_from_tail_ok) simp_all
  then have "slice_from assets (wrap64 (int (length assets) - 1)) = Return [last assets]"
    using assms(3) by (simp add: drop_to_last)
  then show ?thesis
    using assms(1-3) by (simp add: chooseAsset_def chooseAsset_from_def DisplayAssets_def)
qed

text \<open>
  Claim C8 at the input where the code departs from it: the fetched list has one
  asset, prompting is enabled and the tail count is 2. The claim asks for that asset,
  returned without a prompt; \<^verbatim>\<open>chooseAsset\<close> evaluates \<^verbatim>\<open>assets[len(assets)-count:]\<close>
  with the lower bound -1, which no check precedes, and panics with slice bounds out of
  range.
\<close>

theorem singleton_tail_count_panics:
  \<open>extractAssetFromResponse (assets_world ''[{"id":1}]'' (Inr 1)) (ok_response ''[{"id":1}]'') StatusOK True
     = Return (Inr [zero_Asset\<lparr>Asset_ID := 1\<rparr>])
   \<and> fst (chooseAsset (assets_world ''[{"id":1}]'' (Inr 1)) start ''/v1/assets'' True delete_msg 2)
     = Panic SliceBoundsOutOfRange\<close>
  by (simp add: chooseAsset_def case_prod_beta Do_example_ok extract_one_asset
      chooseAsset_from_def slice_from_def wrap64_def)

section \<open>Selection by number\<close>

text \<open>
  With more than one candidate and prompting enabled, the number \<open>v\<close> read from the
  user selects as follows: above the count, the error
  \<^verbatim>\<open>Plese choose a number from the first column\<close>; from 1 to the count, the \<open>v\<close>-th
  record of the displayed list; below 1, a panic, since only the upper bound is checked
  before \<^verbatim>\<open>assets[choice-1]\<close>.
\<close>

lemma index_choice:
  assumes "int (length xs) < 2 ^ 63" and "in_int64 v" and "v \<le> int (length xs)"
  shows "index xs (wrap64 (v - 1)) =
           (if 1 \<le> v then Return (xs ! nat (v - 1)) else Panic IndexOutOfRange)"
proof (cases "v = - (2 ^ 63)")
  case True
  then have "wrap64 (v - 1) = 2 ^ 63 - 1"
    by (simp add: wrap64_def)
  then show ?thesis using True assms(1) by (simp add: index_def)
next
  case False
  then have "in_int64 (v - 1)" using assms(2) by (simp add: in_int64_def)
  then show ?thesis using assms(3) by (simp add: wrap64_id index_def)
qed

lemma chooseAsset_by_number:
  assumes "Do w s endpoint ''GET'' NoParams = (Inr resp, s1)"
    and "extractAssetFromResponse w resp StatusOK True = Return (Inr assets)"
    and "1 < length assets" and "int (length assets) < 2 ^ 63"
    and "ReadUserIntInput w message = Inr v" and "in_int64 v"
  shows "chooseAsset w s endpoint True message 0 =
           (if int (length assets) < v then Return (Inl (ErrorsNew choose_msg))
            else if 1 \<le> v then Return (Inr (Some (assets ! nat (v - 1))))
            else Panic IndexOutOfRange,
            emit (AskedInt message (Inr v)) (emit (ShownAssets assets) s1))"
proof -
  have "assets \<noteq> []" "length assets \<noteq> Suc 0" using assms(3) by auto
  then show ?thesis
    using assms
    by (simp add: chooseAsset_def chooseAsset_from_def DisplayAssets_def ask_int_def
        index_choice Let_def)
qed

lemma chooseJob_by_number:
  assumes "Do w s endpoint ''GET'' NoParams = (Inr resp, s1)"
    and "extractJobFromResponse w resp StatusOK True = Return (Inr jobs)"
    and "1 < length jobs" and "int (length jobs) < 2 ^ 63"
    and "ReadUserIntInput w message = Inr v" and "in_int64 v"
  shows "chooseJob w s endpoint True message =
           (if int (length jobs) < v then Return (Inl (ErrorsNew choose_msg))
            else if 1 \<le> v then Return (Inr (Some (jobs ! nat (v - 1))))
            else Panic IndexOutOfRange,
            emit (AskedInt message (Inr v)) (emit (ShownJobs jobs) s1))"
proof -
  have "jobs \<noteq> []" "length jobs \<noteq> Suc 0" using assms(3) by auto
  then show ?thesis
    using assms
    by (simp add: chooseJob_def chooseJob_from_def DisplayJobs_def ask_int_def
        index_choice Let_def)
qed

text \<open>
  Claim C5 at the inputs where the code departs from it: two candidates are displayed,
  prompting is enabled, and the user types 0 (or -3). The claim asks for an
  out-of-range error; \<^verbatim>\<open>chooseAsset\<close> and \<^verbatim>\<open>chooseJob\<close> panic with an index out of
  range.
\<close>

theorem choice_below_one_panics:
  \<open>fst (chooseAsset (assets_world ''[{"id":1},{"id":2}]'' (Inr 0)) start ''/v1/assets'' True
          delete_msg 0)
     = Panic IndexOutOfRange
   \<and> fst (chooseJob (assets_world ''[{"id":1},{"id":2}]'' (Inr 0)) start ''/v1/jobs'' True
          ''Select a job id to show more details: '')
     = Panic IndexOutOfRange
   \<and> fst (chooseJob (assets_world ''[{"id":1},{"id":2}]'' (Inr (- 3))) start ''/v1/jobs'' True
          ''Select a job id to show more details: '')
     = Panic IndexOutOfRange\<close>
  by (simp add: chooseAsset_def chooseJob_def case_prod_beta Do_example_ok
      extract_two_assets extract_two_jobs chooseAsset_from_def chooseJob_from_def
      ask_int_def ReadUserIntInput_example index_def wrap64_def Let_def)

section \<open>The polling loop, round by round\<close>

lemma wait_loop_round:
  "0 < wait \<Longrightarrow>
   wait_loop w (Some j) wait s =
     (case poll_once w j s of
        (Aborted, s3) \<Rightarrow> (Return False, s3)
      | (Crashed p, s3) \<Rightarrow> (Panic p, s3)
      | (Completed j1, s3) \<Rightarrow> (Return True, emit (ShownJob j1) s3)
      | (Missed, s3) \<Rightarrow> wait_loop w (Some j) (wait - 5) s3)"
  by (subst wait_loop.simps)
    (simp add: poll_once_def Let_def split: prod.split sum.split outcome.split)

lemma wait_loop_done:
  "wait \<le> 0 \<Longrightarrow> wait_loop w (Some j) wait s = (Return False, emit (Printed (timeout_msg j)) s)"
  by (subst wait_loop.simps) simp

lemma wait_loop_nil:
  "0 < wait \<Longrightarrow>
   wait_loop w None wait s = (Panic NilPointerDereference, emit (Printed ''.'') (emit (Slept 5) s))"
  by (subst wait_loop.simps) (simp add: Let_def)

lemma after_polls_Suc: "after_polls w j (Suc k) s = after_polls w j k (snd (poll_once w j s))"
  by (simp add: after_polls_def funpow_Suc_right del: funpow.simps)

lemma after_polls_step: "after_polls w j (Suc k) s = snd (poll_once w j (after_polls w j k s))"
  by (simp add: after_polls_def)

lemma fetched_Suc: "fetched w j (Suc k) s = fetched w j k (snd (poll_once w j s))"
  by (simp add: fetched_def after_polls_Suc)

lemma missed_rounds:
  "(\<And>i. i < k \<Longrightarrow> fetched w j i s = Missed) \<Longrightarrow> 5 * int k < wait + 5 \<Longrightarrow>
   wait_loop w (Some j) wait s = wait_loop w (Some j) (wait - 5 * int k) (after_polls w j k s)"
proof (induction k arbitrary: wait s)
  case 0
  then show ?case by (simp add: after_polls_def)
next
  case (Suc k)
  have first: "fst (poll_once w j s) = Missed"
    using Suc.prems(1) [of 0] by (simp add: fetched_def after_polls_def)
  have pos: "0 < wait" using Suc.prems(2) by simp
  have step: "wait_loop w (Some j) wait s = wait_loop w (Some j) (wait - 5) (snd (poll_once w j s))"
    using first wait_loop_round [OF pos, of w j s] by (simp add: case_prod_beta)
  have rest: "\<And>i. i < k \<Longrightarrow> fetched w j i (snd (poll_once w j s)) = Missed"
    using Suc.prems(1) by (simp add: fetched_Suc [symmetric])
  have "wait_loop w (Some j) (wait - 5) (snd (poll_once w j s)) =
          wait_loop w (Some j) (wait - 5 - 5 * int k) (after_polls w j k (snd (poll_once w j s)))"
    using Suc.prems(2) by (intro Suc.IH rest) simp_all
  then show ?case using step by (simp add: after_polls_Suc algebra_simps)
qed

lemma completes_at:
  assumes "\<And>i. i < k \<Longrightarrow> fetched w j i s = Missed" and "fetched w j k s = Completed j1"
    and "5 * int k < wait"
  shows "wait_loop w (Some j) wait s = (Return True, emit (ShownJob j1) (after_polls w j (Suc k) s))"
proof -
  have "wait_loop w (Some j) wait s = wait_loop w (Some j) (wait - 5 * int k) (after_polls w j k s)"
    using assms(1,3) by (intro missed_rounds) simp_all
  also have "\<dots> = (Return True, emit (ShownJob j1) (after_polls w j (Suc k) s))"
    using assms(2,3) wait_loop_round [of "wait - 5 * int k" w j "after_polls w j k s"]
    by (simp add: fetched_def case_prod_beta after_polls_step)
  finally show ?thesis .
qed

lemma times_out_after:
  assumes "\<And>i. i < k \<Longrightarrow> fetched w j i s = Missed"
    and "5 * int k < wait + 5" and "wait \<le> 5 * int k"
  shows "wait_loop w (Some j) wait s =
           (Return False, emit (Printed (timeout_msg j)) (after_polls w j k s))"
proof -
  have "wait_loop w (Some j) wait s = wait_loop w (Some j) (wait - 5 * int k) (after_polls w j k s)"
    using assms(1,2) by (intro missed_rounds) simp_all
  then show ?thesis using assms(3) by (simp add: wait_loop_done)
qed

section \<open>What a run of the loop sends, sleeps and records\<close>

lemma slept_emit: "slept (emit e s) = slept s + (case e of Slept n \<Rightarrow> n | _ \<Rightarrow> 0)"
  by (simp add: slept_def emit_def)

lemma slept_sent: "slept (s\<lparr>sent := n\<rparr>) = slept s"
  by (simp add: slept_def)

lemma slept_Do: "slept (snd (Do w s r m p)) = slept s"
  by (simp add: Do_def client_Do_def Let_def slept_emit slept_sent
      split: option.split sum.split)

lemma sent_emit: "sent (emit e s) = sent s"
  by (simp add: emit_def)

lemma sent_Do: "fst (Do w s r m p) = Inr resp \<Longrightarrow> sent (snd (Do w s r m p)) = Suc (sent s)"
  by (simp add: Do_def client_Do_def Let_def sent_emit split: option.splits sum.splits)

lemma sent_Do_le: "sent (snd (Do w s r m p)) \<le> Suc (sent s)"
  by (simp add: Do_def client_Do_def Let_def sent_emit split: option.split sum.split)

lemma trace_Do:
  "\<exists>xs. events (snd (Do w s r m p)) = events s @ xs
        \<and> ((\<exists>e\<in>set xs. completes w e)
            = (\<exists>resp. fst (Do w s r m p) = Inr resp \<and> fetched_processed w resp))"
  by (auto simp: Do_def client_Do_def Let_def emit_def completes_def
      split: option.split sum.split)

lemma slept_poll_once: "slept (snd (poll_once w j s)) = slept s + 5"
proof -
  have "snd (poll_once w j s)
          = snd (Do w (emit (Printed ''.'') (emit (Slept 5) s)) (Job_EndPoint j) ''GET'' NoParams)"
    by (simp add: poll_once_def split: prod.split sum.split outcome.split)
  then show ?thesis by (simp add: slept_Do slept_emit)
qed

lemma sent_poll_once:
  "fst (poll_once w j s) \<noteq> Aborted \<Longrightarrow> sent (snd (poll_once w j s)) = Suc (sent s)"
  using sent_Do [of w "emit (Printed ''.'') (emit (Slept 5) s)" "Job_EndPoint j" "''GET''" NoParams]
  by (auto simp: poll_once_def sent_emit split: prod.splits sum.splits outcome.splits if_splits)

lemma sent_poll_once_le: "sent (snd (poll_once w j s)) \<le> Suc (sent s)"
proof -
  have "snd (poll_once w j s)
          = snd (Do w (emit (Printed ''.'') (emit (Slept 5) s)) (Job_EndPoint j) ''GET'' NoParams)"
    by (simp add: poll_once_def split: prod.split sum.split outcome.split)
  then show ?thesis
    using sent_Do_le [of w "emit (Printed ''.'') (emit (Slept 5) s)"] by (simp add: sent_emit)
qed

lemma trace_poll_once:
  "\<exists>xs. events (snd (poll_once w j s)) = events s @ xs
        \<and> ((\<exists>e\<in>set xs. completes w e) = (\<exists>j1. fst (poll_once w j s) = Completed j1))"
proof -
  let ?s2 = "emit (Printed ''.'') (emit (Slept 5) s)"
  let ?d = "Do w ?s2 (Job_EndPoint j) ''GET'' NoParams"
  obtain xs where xs: "events (snd ?d) = events ?s2 @ xs"
    and c: "(\<exists>e\<in>set xs. completes w e)
            = (\<exists>resp. fst ?d = Inr resp \<and> fetched_processed w resp)"
    using trace_Do [of w ?s2 "Job_EndPoint j" "''GET''" NoParams] by blast
  have s: "snd (poll_once w j s) = snd ?d"
    by (simp add: poll_once_def split: prod.split sum.split outcome.split)
  have f: "(\<exists>j1. fst (poll_once w j s) = Completed j1)
            = (\<exists>resp. fst ?d = Inr resp \<and> fetched_processed w resp)"
    by (auto simp: poll_once_def fetched_processed_def
        split: prod.splits sum.splits outcome.splits if_splits)
  have "events (snd (poll_once w j s)) = events s @ ([Slept 5, Printed ''.''] @ xs)"
    using xs s by (simp add: emit_def)
  moreover have "(\<exists>e\<in>set ([Slept 5, Printed ''.''] @ xs). completes w e)
                   = (\<exists>j1. fst (poll_once w j s) = Completed j1)"
    using c f by (simp add: completes_def)
  ultimately show ?thesis by blast
qed

lemma slept_after_polls: "slept (after_polls w j k s) = slept s + 5 * int k"
  by (induction k) (simp_all add: after_polls_def slept_poll_once)

lemma sent_after_polls:
  "(\<And>i. i < k \<Longrightarrow> fetched w j i s \<noteq> Aborted) \<Longrightarrow> sent (after_polls w j k s) = sent s + k"
proof (induction k)
  case 0
  then show ?case by (simp add: after_polls_def)
next
  case (Suc k)
  have "fst (poll_once w j (after_polls w j k s)) \<noteq> Aborted"
    using Suc.prems [of k] by (simp add: fetched_def)
  then show ?case using Suc by (simp add: after_polls_step sent_poll_once)
qed

lemma trace_wait_loop:
  "\<exists>xs. events (snd (wait_loop w (Some j) wait s)) = events s @ xs
        \<and> ((\<exists>e\<in>set xs. completes w e) = (fst (wait_loop w (Some j) wait s) = Return True))"
proof (induction "nat wait" arbitrary: wait s rule: less_induct)
  case less
  show ?case
  proof (cases "0 < wait")
    case False
    then have "wait_loop w (Some j) wait s = (Return False, emit (Printed (timeout_msg j)) s)"
      by (simp add: wait_loop_done)
    then show ?thesis by (simp add: emit_def completes_def)
  next
    case True
    obtain xs where xs: "events (snd (poll_once w j s)) = events s @ xs"
      and c: "(\<exists>e\<in>set xs. completes w e) = (\<exists>j1. fst (poll_once w j s) = Completed j1)"
      using trace_poll_once [of w j s] by blast
    note round = wait_loop_round [OF True, of w j s]
    show ?thesis
    proof (cases "fst (poll_once w j s)")
      case Aborted
      then have "wait_loop w (Some j) wait s = (Return False, snd (poll_once w j s))"
        using round by (simp add: case_prod_beta)
      then show ?thesis using xs c Aborted by simp
    next
      case (Crashed p)
      then have "wait_loop w (Some j) wait s = (Panic p, snd (poll_once w j s))"
        using round by (simp add: case_prod_beta)
      then show ?thesis using xs c Crashed by simp
    next
      case (Completed j1)
      then have "wait_loop w (Some j) wait s
                   = (Return True, emit (ShownJob j1) (snd (poll_once w j s)))"
        using round by (simp add: case_prod_beta)
      moreover have "events (emit (ShownJob j1) (snd (poll_once w j s)))
                       = events s @ (xs @ [ShownJob j1])"
        using xs by (simp add: emit_def)
      moreover have "\<exists>e\<in>set (xs @ [ShownJob j1]). completes w e"
        using c Completed by auto
      ultimately show ?thesis by (metis fst_conv snd_conv)
    next
      case Missed
      let ?t = "snd (poll_once w j s)"
      have eq: "wait_loop w (Some j) wait s = wait_loop w (Some j) (wait - 5) ?t"
        using round Missed by (simp add: case_prod_beta)
      have "nat (wait - 5) < nat wait" using True by simp
      from less [OF this, of ?t]
      obtain ys where ys: "events (snd (wait_loop w (Some j) (wait - 5) ?t)) = events ?t @ ys"
        and d: "(\<exists>e\<in>set ys. completes w e)
                 = (fst (wait_loop w (Some j) (wait - 5) ?t) = Return True)"
        by blast
      have no: "\<not> (\<exists>e\<in>set xs. completes w e)" using c Missed by simp
      have "events (snd (wait_loop w (Some j) wait s)) = events s @ (xs @ ys)"
        using eq ys xs by simp
      moreover have "(\<exists>e\<in>set (xs @ ys). completes w e)
                       = (fst (wait_loop w (Some j) wait s) = Return True)"
        using no d eq by auto
      ultimately show ?thesis by blast
    qed
  qed
qed

lemma sent_wait_loop:
  "sent (snd (wait_loop w (Some j) wait s)) \<le> sent s + nat ((wait + 4) div 5)"
proof (induction "nat wait" arbitrary: wait s rule: less_induct)
  case less
  show ?case
  proof (cases "0 < wait")
    case False
    then show ?thesis by (simp add: wait_loop_done sent_emit)
  next
    case True
    let ?t = "snd (poll_once w j s)"
    have one: "sent ?t \<le> Suc (sent s)" by (rule sent_poll_once_le)
    have "(wait + 4) div 5 = (wait - 5 + 4) div 5 + 1"
      using div_add_self2 [of 5 "wait - 5 + 4"] by simp
    moreover have "0 \<le> (wait - 5 + 4) div 5"
      using True by (simp add: pos_imp_zdiv_nonneg_iff)
    ultimately have budget: "nat ((wait + 4) div 5) = Suc (nat ((wait - 5 + 4) div 5))"
      by (simp add: Suc_nat_eq_nat_zadd1)
    note round = wait_loop_round [OF True, of w j s]
    show ?thesis
    proof (cases "fst (poll_once w j s)")
      case Missed
      have eq: "wait_loop w (Some j) wait s = wait_loop w (Some j) (wait - 5) ?t"
        using round Missed by (simp add: case_prod_beta)
      have "nat (wait - 5) < nat wait" using True by simp
      from less [OF this, of ?t] show ?thesis using eq one budget by simp
    qed (use round one budget in \<open>simp_all add: case_prod_beta sent_emit\<close>)
  qed
qed

lemma events_Do_answered:
  "Do w s r m p = (Inr resp, s1) \<Longrightarrow>
   \<exists>ys req. events s1 = events s @ ys @ [HttpSent req (Inr resp)]"
  by (auto simp: Do_def client_Do_def Let_def emit_def
      split: option.splits sum.splits if_splits)

lemma singleton_nth: "length xs = 1 \<Longrightarrow> xs = [xs ! 0]"
  by (cases xs) auto

lemma events_poll_once_Completed:
  assumes "fst (poll_once w j s) = Completed j1"
  shows "\<exists>ys req resp. events (snd (poll_once w j s)) = events s @ ys @ [HttpSent req (Inr resp)]
           \<and> extractJobFromResponse w resp StatusOK False = Return (Inr [j1])
           \<and> Status j1 = processed"
proof -
  let ?s2 = "emit (Printed ''.'') (emit (Slept 5) s)"
  obtain r s3 where d: "Do w ?s2 (Job_EndPoint j) ''GET'' NoParams = (r, s3)"
    by (cases "Do w ?s2 (Job_EndPoint j) ''GET'' NoParams")
  from assms d obtain resp jobs where r: "r = Inr resp"
    and e: "extractJobFromResponse w resp StatusOK False = Return (Inr jobs)"
    and l: "length jobs = 1" and p: "Status (jobs ! 0) = processed" and j1: "j1 = jobs ! 0"
    by (auto simp: poll_once_def split: sum.splits outcome.splits if_splits)
  from d r obtain ys req where "events s3 = events ?s2 @ ys @ [HttpSent req (Inr resp)]"
    using events_Do_answered by blast
  then have "events s3 = events s @ ([Slept 5, Printed ''.''] @ ys) @ [HttpSent req (Inr resp)]"
    by (simp add: emit_def)
  moreover have "snd (poll_once w j s) = s3"
    using d by (simp add: poll_once_def split: sum.split outcome.split)
  moreover have "jobs = [j1]" using l j1 singleton_nth by blast
  ultimately have "events (snd (poll_once w j s))
                     = events s @ ([Slept 5, Printed ''.''] @ ys) @ [HttpSent req (Inr resp)]
           \<and> extractJobFromResponse w resp StatusOK False = Return (Inr [j1])
           \<and> Status j1 = processed"
    using e p j1 by simp
  then show ?thesis by blast
qed

lemma events_wait_loop_True:
  "fst (wait_loop w (Some j) wait s) = Return True \<Longrightarrow>
   \<exists>ys req resp j1.
     events (snd (wait_loop w (Some j) wait s))
       = events s @ ys @ [HttpSent req (Inr resp), ShownJob j1]
     \<and> extractJobFromResponse w resp StatusOK False = Return (Inr [j1])
     \<and> Status j1 = processed"
proof (induction "nat wait" arbitrary: wait s rule: less_induct)
  case less
  show ?case
  proof (cases "0 < wait")
    case False
    then show ?thesis using less.prems by (simp add: wait_loop_done)
  next
    case True
    note round = wait_loop_round [OF True, of w j s]
    obtain xs where xs: "events (snd (poll_once w j s)) = events s @ xs"
      using trace_poll_once [of w j s] by blast
    show ?thesis
    proof (cases "fst (poll_once w j s)")
      case Aborted
      then show ?thesis using round less.prems by (simp add: case_prod_beta)
    next
      case (Crashed p)
      then show ?thesis using round less.prems by (simp add: case_prod_beta)
    next
      case (Completed j1)
      from events_poll_once_Completed [OF this]
      obtain ys req resp where
        "events (snd (poll_once w j s)) = events s @ ys @ [HttpSent req (Inr resp)]"
        "extractJobFromResponse w resp StatusOK False = Return (Inr [j1])"
        "Status j1 = processed"
        by blast
      moreover have "wait_loop w (Some j) wait s
                       = (Return True, emit (ShownJob j1) (snd (poll_once w j s)))"
        using round Completed by (simp add: case_prod_beta)
      ultimately show ?thesis by (auto simp: emit_def)
    next
      case Missed
      let ?t = "snd (poll_once w j s)"
      have eq: "wait_loop w (Some j) wait s = wait_loop w (Some j) (wait - 5) ?t"
        using round Missed by (simp add: case_prod_beta)
      have "nat (wait - 5) < nat wait" using True by simp
      from less.hyps [OF this, of ?t] less.prems eq
      obtain ys req resp j1 where
        "events (snd (wait_loop w (Some j) (wait - 5) ?t))
           = events ?t @ ys @ [HttpSent req (Inr resp), ShownJob j1]"
        "extractJobFromResponse w resp StatusOK False = Return (Inr [j1])"
        "Status j1 = processed"
        by auto
      then have "events (snd (wait_loop w (Some j) wait s))
           = events s @ (xs @ ys) @ [HttpSent req (Inr resp), ShownJob j1]
         \<and> extractJobFromResponse w resp StatusOK False = Return (Inr [j1])
         \<and> Status j1 = processed"
        using eq xs by simp
      then show ?thesis by blast
    qed
  qed
qed

section \<open>Polling in the concrete world\<close>

lemma Do_poll_world:
  "Do (poll_world net) s (Job_EndPoint j) ''GET'' NoParams =
     (net (sent s) (poll_request j),
      \<lparr>events = events s @ [HttpSent (poll_request j) (net (sent s) (poll_request j))],
       sent = Suc (sent s)\<rparr>)"
  by (simp add: Do_def poll_world_def example_world_def example_auth_def client_Do_def
      Let_def emit_def poll_request_def ServerURL_def addAuthToHeader_def Header_Add_def)

lemma extract_queued:
  "extractJobFromResponse (poll_world net) (ok_response queued_text) StatusOK False
     = Return (Inr [zero_Job\<lparr>ID := 7, Status := ''queued''\<rparr>])"
  by (simp add: extractJobFromResponse_def extractJobFromBody_def unmarshal_ptr_def
      poll_world_def example_world_def example_parse_def ok_response_def StatusOK_def
      example_job_of_json_def int_field_def string_field_def queued_text_def)

lemma extract_processed:
  "extractJobFromResponse (poll_world net) (ok_response processed_text) StatusOK False
     = Return (Inr [zero_Job\<lparr>ID := 7, Status := ''processed''\<rparr>])"
  by (simp add: extractJobFromResponse_def extractJobFromBody_def unmarshal_ptr_def
      poll_world_def example_world_def example_parse_def ok_response_def StatusOK_def
      example_job_of_json_def int_field_def string_field_def processed_text_def)

lemma extract_500:
  "extractJobFromResponse w \<lparr>StatusCode = 500, Body = b\<rparr> StatusOK False
     = Return (Inl (ErrorsNew ''Unexpected return code from API, was=500, expected=200''))"
  by (simp add: extractJobFromResponse_def StatusOK_def respCodeToErrorMsg_def fmt_d_def
      digits.simps)

lemma poll_once_poll_world:
  "poll_once (poll_world net) j s =
     (case net (sent s) (poll_request j) of
        Inl err \<Rightarrow> Aborted
      | Inr resp \<Rightarrow>
          (case extractJobFromResponse (poll_world net) resp StatusOK False of
             Panic p \<Rightarrow> Crashed p
           | Return (Inl err) \<Rightarrow> Missed
           | Return (Inr jobs) \<Rightarrow>
               if length jobs = 1 \<and> Status (jobs ! 0) = processed then Completed (jobs ! 0)
               else Missed),
      \<lparr>events = events s @ [Slept 5, Printed ''.'',
                  HttpSent (poll_request j) (net (sent s) (poll_request j))],
       sent = Suc (sent s)\<rparr>)"
  by (simp add: poll_once_def Do_poll_world emit_def split: sum.split outcome.split)

lemmas poll_eval =
  poll_once_poll_world extract_queued extract_processed extract_500 processed_def
  fetched_def after_polls_def start_def emit_def done7_def

section \<open>Polling: success\<close>

text \<open>
  Claim C2. \<^verbatim>\<open>waitForJobCompletion\<close> returns true if and only if one of the GETs it
  sent fetched the job with status \<^verbatim>\<open>processed\<close>; it sends at most one GET for every 5
  seconds of the budget, rounded up. When it returns true, the last two things it did
  are that GET and the display of the job fetched. When the rounds before round \<open>k + 1\<close> fetch
  something else, round \<open>k + 1\<close> fetches the job with status \<^verbatim>\<open>processed\<close> and the
  budget is above \<open>5 k\<close> seconds, the job is displayed and the loop ends there with
  true, after exactly \<open>k + 1\<close> requests and \<open>5 (k + 1)\<close> seconds of sleep: with a budget
  of 30 seconds and the status \<^verbatim>\<open>processed\<close> at the third poll, after exactly 3 polls.
\<close>

theorem polling_success:
  "((fst (waitForJobCompletion w s (Some j) wait) = Return True)
      = (\<exists>e\<in>set (new_events s (snd (waitForJobCompletion w s (Some j) wait))). completes w e))
   \<and> sent (snd (waitForJobCompletion w s (Some j) wait)) \<le> sent s + nat ((wait + 4) div 5)
   \<and> (fst (waitForJobCompletion w s (Some j) wait) = Return True
      \<longrightarrow> (\<exists>ys req resp j1.
            new_events s (snd (waitForJobCompletion w s (Some j) wait))
              = ys @ [HttpSent req (Inr resp), ShownJob j1]
            \<and> extractJobFromResponse w resp StatusOK False = Return (Inr [j1])
            \<and> Status j1 = processed))
   \<and> ((\<forall>i<k. fetched w j i (emit (Printed (waiting_msg wait)) s) = Missed)
        \<and> fetched w j k (emit (Printed (waiting_msg wait)) s) = Completed j1
        \<and> 5 * int k < wait
      \<longrightarrow> waitForJobCompletion w s (Some j) wait
            = (Return True,
               emit (ShownJob j1) (after_polls w j (Suc k) (emit (Printed (waiting_msg wait)) s)))
          \<and> sent (snd (waitForJobCompletion w s (Some j) wait)) = sent s + Suc k
          \<and> slept (snd (waitForJobCompletion w s (Some j) wait)) = slept s + 5 * int (Suc k))"
proof -
  let ?s0 = "emit (Printed (waiting_msg wait)) s"
  obtain xs where xs: "events (snd (wait_loop w (Some j) wait ?s0)) = events ?s0 @ xs"
    and c: "(\<exists>e\<in>set xs. completes w e) = (fst (wait_loop w (Some j) wait ?s0) = Return True)"
    using trace_wait_loop [of w j wait ?s0] by blast
  have "new_events s (snd (waitForJobCompletion w s (Some j) wait))
          = Printed (waiting_msg wait) # xs"
    using xs by (simp add: waitForJobCompletion_def new_events_def emit_def)
  then have A: "(fst (waitForJobCompletion w s (Some j) wait) = Return True)
      = (\<exists>e\<in>set (new_events s (snd (waitForJobCompletion w s (Some j) wait))). completes w e)"
    using c by (simp add: waitForJobCompletion_def completes_def)
  have B: "sent (snd (waitForJobCompletion w s (Some j) wait)) \<le> sent s + nat ((wait + 4) div 5)"
    using sent_wait_loop [of w j wait ?s0] by (simp add: waitForJobCompletion_def sent_emit)
  have C: "waitForJobCompletion w s (Some j) wait
            = (Return True, emit (ShownJob j1) (after_polls w j (Suc k) ?s0))
          \<and> sent (snd (waitForJobCompletion w s (Some j) wait)) = sent s + Suc k
          \<and> slept (snd (waitForJobCompletion w s (Some j) wait)) = slept s + 5 * int (Suc k)"
    if m: "\<forall>i<k. fetched w j i ?s0 = Missed" and d: "fetched w j k ?s0 = Completed j1"
      and b: "5 * int k < wait"
  proof -
    have run: "wait_loop w (Some j) wait ?s0
                 = (Return True, emit (ShownJob j1) (after_polls w j (Suc k) ?s0))"
      using m d b by (intro completes_at) simp_all
    have "\<And>i. i < Suc k \<Longrightarrow> fetched w j i ?s0 \<noteq> Aborted"
      using m d by (auto simp: less_Suc_eq)
    then have "sent (after_polls w j (Suc k) ?s0) = sent ?s0 + Suc k"
      by (rule sent_after_polls)
    then show ?thesis
      using run
      by (simp add: waitForJobCompletion_def sent_emit slept_emit slept_after_polls
          del: of_nat_Suc)
  qed
  have D: "\<exists>ys req resp j1.
            new_events s (snd (waitForJobCompletion w s (Some j) wait))
              = ys @ [HttpSent req (Inr resp), ShownJob j1]
            \<and> extractJobFromResponse w resp StatusOK False = Return (Inr [j1])
            \<and> Status j1 = processed"
    if t: "fst (waitForJobCompletion w s (Some j) wait) = Return True"
  proof -
    from t have "fst (wait_loop w (Some j) wait ?s0) = Return True"
      by (simp add: waitForJobCompletion_def)
    from events_wait_loop_True [OF this]
    obtain ys req resp j1 where
      "events (snd (wait_loop w (Some j) wait ?s0))
         = events ?s0 @ ys @ [HttpSent req (Inr resp), ShownJob j1]"
      "extractJobFromResponse w resp StatusOK False = Return (Inr [j1])"
      "Status j1 = processed"
      by blast
    then have "new_events s (snd (waitForJobCompletion w s (Some j) wait))
                 = (Printed (waiting_msg wait) # ys) @ [HttpSent req (Inr resp), ShownJob j1]
               \<and> extractJobFromResponse w resp StatusOK False = Return (Inr [j1])
               \<and> Status j1 = processed"
      by (simp add: waitForJobCompletion_def new_events_def emit_def)
    then show ?thesis by blast
  qed
  show ?thesis using A B C D by blast
qed

theorem polling_success_witness:
  "fst (waitForJobCompletion (poll_world (processed_from 2)) start (Some job7) 30) = Return True
   \<and> sent (snd (waitForJobCompletion (poll_world (processed_from 2)) start (Some job7) 30)) = 3
   \<and> slept (snd (waitForJobCompletion (poll_world (processed_from 2)) start (Some job7) 30)) = 15"
proof -
  have "\<forall>i<2. fetched (poll_world (processed_from 2)) job7 i (emit (Printed (waiting_msg 30)) start)
               = Missed"
    by (simp add: numeral_2_eq_2 All_less_Suc poll_eval processed_from_def)
  moreover
  have "fetched (poll_world (processed_from 2)) job7 2 (emit (Printed (waiting_msg 30)) start)
          = Completed done7"
    by (simp add: numeral_2_eq_2 poll_eval processed_from_def)
  ultimately
  have "(\<forall>i<2. fetched (poll_world (processed_from 2)) job7 i
                  (emit (Printed (waiting_msg 30)) start) = Missed)
        \<and> fetched (poll_world (processed_from 2)) job7 2 (emit (Printed (waiting_msg 30)) start)
            = Completed done7
        \<and> 5 * int 2 < 30"
    by simp
  note run = polling_success [of "poll_world (processed_from 2)" start job7 30 2 done7,
      THEN conjunct2, THEN conjunct2, THEN conjunct2, THEN mp, OF this]
  have "fst (waitForJobCompletion (poll_world (processed_from 2)) start (Some job7) 30)
          = Return True"
    using run [THEN conjunct1] by simp
  moreover
  have "sent (snd (waitForJobCompletion (poll_world (processed_from 2)) start (Some job7) 30)) = 3"
    using run [THEN conjunct2, THEN conjunct1] by (simp add: start_def)
  moreover
  have "slept (snd (waitForJobCompletion (poll_world (processed_from 2)) start (Some job7) 30)) = 15"
    using run [THEN conjunct2, THEN conjunct2] by (simp add: start_def slept_def)
  ultimately show ?thesis by simp
qed

section \<open>Polling: timeout\<close>

text \<open>
  Claim C3. With a budget of 10 seconds, when neither of the first two polls fetches
  the job with status \<^verbatim>\<open>processed\<close> (each GET is answered), the loop sends exactly 2
  requests, sleeps 10 seconds, prints that the job did not complete in time, and
  returns false: a result, neither an error nor a panic.
\<close>

theorem polling_timeout:
  assumes "\<forall>i<2. fetched w j i (emit (Printed (waiting_msg 10)) s) = Missed"
  shows "waitForJobCompletion w s (Some j) 10
           = (Return False,
              emit (Printed (timeout_msg j))
                (after_polls w j 2 (emit (Printed (waiting_msg 10)) s)))
       \<and> sent (snd (waitForJobCompletion w s (Some j) 10)) = sent s + 2
       \<and> slept (snd (waitForJobCompletion w s (Some j) 10)) = slept s + 10"
proof -
  let ?s0 = "emit (Printed (waiting_msg 10)) s"
  have run: "wait_loop w (Some j) 10 ?s0
          = (Return False, emit (Printed (timeout_msg j)) (after_polls w j 2 ?s0))"
    using assms by (intro times_out_after) simp_all
  have "\<And>i. i < 2 \<Longrightarrow> fetched w j i ?s0 \<noteq> Aborted"
    using assms by simp
  then have "sent (after_polls w j 2 ?s0) = sent ?s0 + 2"
    by (rule sent_after_polls)
  then show ?thesis
    using run by (simp add: waitForJobCompletion_def sent_emit slept_emit slept_after_polls)
qed

theorem polling_timeout_witness:
  "fst (waitForJobCompletion (poll_world (always (ok_response queued_text))) start (Some job7) 10)
     = Return False
   \<and> sent (snd (waitForJobCompletion (poll_world (always (ok_response queued_text))) start
                  (Some job7) 10)) = 2
   \<and> slept (snd (waitForJobCompletion (poll_world (always (ok_response queued_text))) start
                   (Some job7) 10)) = 10
   \<and> last (events (snd (waitForJobCompletion (poll_world (always (ok_response queued_text)))
                          start (Some job7) 10)))
     = Printed ''Job 7 did not complete in time. Please check manually using `slyft project status`''"
proof -
  have "\<forall>i<2. fetched (poll_world (always (ok_response queued_text))) job7 i
                 (emit (Printed (waiting_msg 10)) start) = Missed"
    by (simp add: numeral_2_eq_2 All_less_Suc poll_eval always_def)
  note run = polling_timeout [OF this]
  have "fst (waitForJobCompletion (poll_world (always (ok_response queued_text))) start
               (Some job7) 10) = Return False"
    using run [THEN conjunct1] by simp
  moreover
  have "sent (snd (waitForJobCompletion (poll_world (always (ok_response queued_text))) start
                  (Some job7) 10)) = 2"
    using run [THEN conjunct2, THEN conjunct1] by (simp add: start_def)
  moreover
  have "slept (snd (waitForJobCompletion (poll_world (always (ok_response queued_text))) start
                   (Some job7) 10)) = 10"
    using run [THEN conjunct2, THEN conjunct2] by (simp add: start_def slept_def)
  moreover
  have "last (events (snd (waitForJobCompletion (poll_world (always (ok_response queued_text)))
                          start (Some job7) 10)))
     = Printed ''Job 7 did not complete in time. Please check manually using `slyft project status`''"
    using run [THEN conjunct1]
    by (simp add: emit_def timeout_msg_def job7_def fmt_d_def digits.simps)
  ultimately show ?thesis by simp
qed

section \<open>Polling: failures of the GET\<close>

text \<open>
  Claim C1, as amended. In a round of the loop, a response that cannot be decoded (an
  unexpected status, a body that cannot be read, a body that is not the JSON of a job)
  is a miss: the loop goes on with 5 seconds less of budget from the state the GET
  left, and the error appears nowhere. An error of \<^verbatim>\<open>Do\<close> itself (the request could not
  be built or sent, the credentials could not be read) ends the loop at once with the
  result false.
\<close>

theorem poll_failure_handling:
  assumes "0 < wait"
    and "Do w (emit (Printed ''.'') (emit (Slept 5) s)) (Job_EndPoint j) ''GET'' NoParams = (r, s3)"
  shows "(\<forall>err. r = Inl err \<longrightarrow> wait_loop w (Some j) wait s = (Return False, s3))
       \<and> (\<forall>resp err. r = Inr resp
              \<and> extractJobFromResponse w resp StatusOK False = Return (Inl err)
            \<longrightarrow> wait_loop w (Some j) wait s = wait_loop w (Some j) (wait - 5) s3)"
  using assms by (subst (1 2) wait_loop.simps) (simp add: Let_def)

theorem poll_failure_handling_witness:
  "wait_loop (poll_world fails_first) (Some job7) 10 start
     = (Return False,
        \<lparr>events = [Slept 5, Printed ''.'',
                   HttpSent (poll_request job7) (Inl (NetworkError ''connection reset''))],
         sent = 1\<rparr>)
   \<and> wait_loop (poll_world error_first) (Some job7) 10 start
     = wait_loop (poll_world error_first) (Some job7) 5
        \<lparr>events = [Slept 5, Printed ''.'',
                   HttpSent (poll_request job7)
                     (Inr \<lparr>StatusCode = 500, Body = Inr ''Internal Server Error''\<rparr>)],
         sent = 1\<rparr>
   \<and> fst (wait_loop (poll_world error_first) (Some job7) 10 start) = Return True"
proof -
  have pos: "(0::int) < 10" by simp
  note a = poll_failure_handling [OF pos Do_poll_world, of fails_first start job7]
  note b = poll_failure_handling [OF pos Do_poll_world, of error_first start job7]
  have c: "fst (wait_loop (poll_world error_first) (Some job7) 5
        \<lparr>events = [Slept 5, Printed ''.'',
                   HttpSent (poll_request job7)
                     (Inr \<lparr>StatusCode = 500, Body = Inr ''Internal Server Error''\<rparr>)],
         sent = 1\<rparr>) = Return True"
    by (simp add: wait_loop_round poll_eval error_first_def)
  show ?thesis
    using a b c by (simp add: fails_first_def error_first_def start_def emit_def extract_500)
qed

text \<open>
  Claim C1 as stated fails for a transport error: the first GET of a run with a
  budget of 10 seconds fails in the network; the run returns false after one request
  and 5 seconds, although 5 seconds of budget remain and the loop, continued from
  there, would have fetched the job with status \<^verbatim>\<open>processed\<close> and returned true.
\<close>

theorem transport_error_counterexample:
  "fst (waitForJobCompletion (poll_world fails_first) start (Some job7) 10) = Return False
   \<and> sent (snd (waitForJobCompletion (poll_world fails_first) start (Some job7) 10)) = 1
   \<and> slept (snd (waitForJobCompletion (poll_world fails_first) start (Some job7) 10)) = 5
   \<and> fst (wait_loop (poll_world fails_first) (Some job7) 5
            (snd (waitForJobCompletion (poll_world fails_first) start (Some job7) 10)))
     = Return True"
  by (simp add: waitForJobCompletion_def wait_loop_round poll_eval fails_first_def slept_def)

section \<open>Waiting for a job that was not created\<close>

lemma postNewJob_nil_cases:
  "(chooseProject w name (kind @ '' project: '') = Inl err
      \<longrightarrow> postNewJob w s kind name = (Return None, emit (Reported ''Choosing a project'' err) s))
   \<and> (chooseProject w name (kind @ '' project: '') = Inr p
        \<and> Do w s (JobsUrl w p) ''POST'' (JobParams (creatJobParam kind p)) = (Inl err, s1)
      \<longrightarrow> postNewJob w s kind name
            = (Return None, emit (Reported ''Contacting the server'' err) s1))
   \<and> (chooseProject w name (kind @ '' project: '') = Inr p
        \<and> Do w s (JobsUrl w p) ''POST'' (JobParams (creatJobParam kind p)) = (Inr resp, s1)
        \<and> extractJobFromResponse w resp StatusCreated False = Return (Inl err)
      \<longrightarrow> postNewJob w s kind name
            = (Return None, emit (Reported ''Reading the server response'' err) s1))"
  by (simp add: postNewJob_def)

text \<open>
  Claim C10. When \<^verbatim>\<open>postNewJob\<close> returns nil, the actions of \<^verbatim>\<open>buildProject\<close> and
  \<^verbatim>\<open>validateProject\<close> still call \<^verbatim>\<open>waitForJobCompletion\<close> with the nil job; with a
  positive budget the loop sleeps 5 seconds, prints a dot and panics with a nil pointer
  dereference when it builds the endpoint of the job, before any request is sent.
\<close>

theorem nil_job_panics:
  assumes "0 < wait"
  shows "(postNewJob w s ''build'' name = (Return None, s1)
          \<longrightarrow> buildProject w s name (Some wait)
                = (Panic NilPointerDereference,
                   emit (Printed ''.'') (emit (Slept 5) (emit (Printed (waiting_msg wait)) s1))))
       \<and> (postNewJob w s ''validate'' name = (Return None, s1)
          \<longrightarrow> validateProject w s name (Some wait)
                = (Panic NilPointerDereference,
                   emit (Printed ''.'') (emit (Slept 5) (emit (Printed (waiting_msg wait)) s1))))"
  using assms
  by (simp add: buildProject_def validateProject_def job_action_def waitForJobCompletion_def
      wait_loop_nil)

theorem nil_job_panics_witness:
  "buildProject (poll_world offline) start [] (Some 30)
     = (Panic NilPointerDereference,
        \<lparr>events = [Reported ''Choosing a project'' (ProjectError ''no project''),
                   Printed ''Waiting (30s) for job completion..'', Slept 5, Printed ''.''],
         sent = 0\<rparr>)
   \<and> validateProject (poll_world offline) start ''demo'' (Some 30)
     = (Panic NilPointerDereference,
        \<lparr>events = [HttpSent
                     \<lparr>Method = ''POST'', URL = ''https://api.example.org/v1/projects/3/jobs'',
                      Header = [(''access-token'', ''token''), (''client'', ''client''),
                                (''uid'', ''me@example.org''),
                                (''Content-Type'', ''application/json; charset=utf-8'')],
                      Payload = JobParams \<lparr>JobParam_Job = zero_Job\<lparr>Kind := ''validate'', ProjectId := 3\<rparr>\<rparr>\<rparr>
                     (Inl (NetworkError ''connection refused'')),
                   Reported ''Contacting the server'' (NetworkError ''connection refused''),
                   Printed ''Waiting (30s) for job completion..'', Slept 5, Printed ''.''],
         sent = 1\<rparr>)"
proof -
  have pos: "(0::int) < 30" by simp
  have a: "postNewJob (poll_world offline) start ''build'' []
             = (Return None, emit (Reported ''Choosing a project'' (ProjectError ''no project'')) start)"
    by (simp add: postNewJob_def poll_world_def example_world_def)
  have b: "postNewJob (poll_world offline) start ''validate'' ''demo''
             = (Return None,
                emit (Reported ''Contacting the server'' (NetworkError ''connection refused''))
                  (snd (Do (poll_world offline) start ''/v1/projects/3/jobs'' ''POST''
                         (JobParams (creatJobParam ''validate'' \<lparr>Project_ID = 3\<rparr>)))))"
    by (simp add: postNewJob_def poll_world_def example_world_def Do_def client_Do_def Let_def
        offline_def fmt_d_def digits.simps)
  show ?thesis
    using nil_job_panics [OF pos, THEN conjunct1, THEN mp, OF a]
      nil_job_panics [OF pos, THEN conjunct2, THEN mp, OF b]
    by (simp add: start_def emit_def waiting_msg_def fmt_d_def digits.simps
        Do_def client_Do_def Let_def poll_world_def example_world_def example_auth_def
        offline_def ServerURL_def addAuthToHeader_def Header_Add_def creatJobParam_def)
qed

section \<open>Transport: credentials\<close>

text \<open>
  Claim C4, as amended. For a request that can be built: when the persisted
  credentials cannot be read, \<^verbatim>\<open>Do\<close> prints the login hint and returns the error, and no
  request is sent; when they are read and are not good for login, \<^verbatim>\<open>Do\<close> prints the
  login hint first and then sends the request, with the three authentication headers
  taken from them.
\<close>

theorem Do_credentials:
  assumes "NewRequest_error w method (ServerURL w resource) = None"
  shows "(readAuthFromConfig w = Inl err
          \<longrightarrow> Do w s resource method ps = (Inl err, emit (Printed login_hint) s))
       \<and> (readAuthFromConfig w = Inr auth \<and> \<not> GoodForLogin w auth
          \<longrightarrow> Do w s resource method ps
                = client_Do w (emit (Printed login_hint) s)
                    \<lparr>Method = method, URL = ServerURL w resource,
                     Header = [(''access-token'', AccessToken auth), (''client'', Client auth),
                               (''uid'', Uid auth),
                               (''Content-Type'', ''application/json; charset=utf-8'')],
                     Payload = ps\<rparr>
              \<and> new_events s (snd (Do w s resource method ps))
                = [Printed login_hint,
                   HttpSent
                     \<lparr>Method = method, URL = ServerURL w resource,
                      Header = [(''access-token'', AccessToken auth), (''client'', Client auth),
                                (''uid'', Uid auth),
                                (''Content-Type'', ''application/json; charset=utf-8'')],
                      Payload = ps\<rparr>
                     (fst (Do w s resource method ps))]
              \<and> sent (snd (Do w s resource method ps)) = Suc (sent s))"
  using assms
  by (simp add: Do_def client_Do_def Let_def addAuthToHeader_def Header_Add_def emit_def
      new_events_def)

theorem Do_credentials_witness:
  "Do (example_world (Inr no_token) (always (ok_response ''[]'')) (Inr 0)) start ''/v1/assets''
      ''GET'' NoParams
     = (Inr (ok_response ''[]''),
        \<lparr>events = [Printed login_hint,
                   HttpSent
                     \<lparr>Method = ''GET'', URL = ''https://api.example.org/v1/assets'',
                      Header = [(''access-token'', []), (''client'', []), (''uid'', []),
                                (''Content-Type'', ''application/json; charset=utf-8'')],
                      Payload = NoParams\<rparr>
                     (Inr (ok_response ''[]''))],
         sent = 1\<rparr>)
   \<and> Do (example_world (Inl (AuthConfigError ''no config file'')) (always (ok_response ''[]''))
          (Inr 0)) start ''/v1/assets'' ''GET'' NoParams
     = (Inl (AuthConfigError ''no config file''), \<lparr>events = [Printed login_hint], sent = 0\<rparr>)"
proof -
  have a: "NewRequest_error (example_world (Inr no_token) (always (ok_response ''[]'')) (Inr 0))
             ''GET'' (ServerURL (example_world (Inr no_token) (always (ok_response ''[]'')) (Inr 0))
                       ''/v1/assets'') = None"
    by (simp add: example_world_def)
  have b: "NewRequest_error
             (example_world (Inl (AuthConfigError ''no config file'')) (always (ok_response ''[]''))
               (Inr 0))
             ''GET'' (ServerURL (example_world (Inl (AuthConfigError ''no config file''))
                                  (always (ok_response ''[]'')) (Inr 0)) ''/v1/assets'') = None"
    by (simp add: example_world_def)
  show ?thesis
    using
      Do_credentials [OF a, where auth = no_token and s = start and ps = NoParams
        and err = "AuthConfigError []"]
      Do_credentials [OF b, where auth = no_token and s = start and ps = NoParams
        and err = "AuthConfigError ''no config file''"]
    by (simp add: example_world_def no_token_def client_Do_def Let_def always_def emit_def
        start_def ServerURL_def)
qed

text \<open>
  Claim C4 as stated fails when the credentials are absent: reading them fails, the
  login hint is printed, and \<^verbatim>\<open>Do\<close> returns the error without sending the request the
  server would have answered.
\<close>

theorem unreadable_credentials_counterexample:
  "readAuthFromConfig (example_world (Inl (AuthConfigError ''no config file''))
       (always (ok_response ''[]'')) (Inr 0)) = Inl (AuthConfigError ''no config file'')
   \<and> Do (example_world (Inl (AuthConfigError ''no config file'')) (always (ok_response ''[]''))
          (Inr 0)) start ''/v1/assets'' ''GET'' NoParams
     = (Inl (AuthConfigError ''no config file''), \<lparr>events = [Printed login_hint], sent = 0\<rparr>)"
  by (simp add: Do_def example_world_def emit_def start_def)

end
